theory Spec2Isabelle
  imports Complex_Main "HOL-Library.Word"
begin

section \<open>Common types\<close>

text \<open>
  Timestamps are the millisecond counts of JavaScript's \<open>Date.getTime()\<close>. Every
  \<open>new Date()\<close> of the source is an explicit clock reading passed to the function
  that performs it. Strings are character lists; a \<open>Buffer\<close> is a list of bytes.
  A rejected promise or a thrown exception is the \<open>Inl\<close> branch of a sum.
\<close>

type_synonym time = int

type_synonym buffer = "8 word list"

datatype error = RecordNotFound | LibraryError string

section \<open>Subscription service (subscriptionService.ts)\<close>

subsection \<open>Data\<close>

text \<open>
  Modelled from the spec: the Prisma schema with the enums \<open>PlanType\<close> and
  \<open>SubscriptionStatus\<close> and the tables is not among the sources. The plan types are the
  five tiers of the specification and of \<open>PLAN_LIMITS\<close>; the statuses are those the
  services write and query; the columns are those the services read and write.
\<close>

datatype PlanType = TRIAL | FREE | PRO | BUSINESS | ENTERPRISE

datatype SubscriptionStatus = ACTIVE | TRIALING | PAST_DUE | CANCELED | EXPIRED

record UsageLimits =
  qrCodesPerMonth :: int
  dynamicQrCodes :: int
  apiCallsPerMonth :: int
  logoUploads :: bool
  analytics :: string
  exportFormats :: "string list"
  watermark :: bool

record SubscriptionInfo =
  info_planType :: PlanType
  info_status :: SubscriptionStatus
  trialDaysLeft :: int
  isTrialActive :: bool
  info_currentPeriodEnd :: "time option"

record Subscription =
  sub_id :: nat
  userId :: string
  planType :: PlanType
  status :: SubscriptionStatus
  trialStart :: "time option"
  trialEnd :: "time option"
  currentPeriodStart :: "time option"
  currentPeriodEnd :: "time option"
  stripeSubscriptionId :: "string option"
  stripeCustomerId :: "string option"
  createdAt :: time

record UsageTracking =
  ut_userId :: string
  actionType :: string
  ut_count :: int
  ut_date :: time

record QrCode =
  qr_userId :: string
  isDynamic :: bool
  isActive :: bool

record Database =
  subscriptions :: "Subscription list"
  usageTracking :: "UsageTracking list"
  qrCodes :: "QrCode list"
  nextId :: nat

text \<open>
  The host's calendar (\<open>getFullYear\<close>, \<open>getMonth\<close> and the \<open>Date\<close> constructor in the
  local time zone) is a parameter: \<open>startOfMonth now\<close> is
  \<open>new Date(now.getFullYear(), now.getMonth(), 1)\<close> and \<open>endOfMonth now\<close> is
  \<open>new Date(now.getFullYear(), now.getMonth() + 1, 0)\<close>.
\<close>

record Calendar =
  startOfMonth :: "time \<Rightarrow> time"
  endOfMonth :: "time \<Rightarrow> time"

datatype Action = logo_upload | qr_generated | api_call | dynamic_qr

record ActionResult =
  allowed :: bool
  reason :: "string option"
  upgradeRequired :: "bool option"

subsection \<open>Plan limits\<close>

fun PLAN_LIMITS :: "PlanType \<Rightarrow> UsageLimits" where
  "PLAN_LIMITS TRIAL =
     \<lparr>qrCodesPerMonth = 100, dynamicQrCodes = 10, apiCallsPerMonth = 1000,
      logoUploads = True, analytics = ''basic'',
      exportFormats = [''png'', ''jpg'', ''svg'', ''pdf''], watermark = False\<rparr>"
| "PLAN_LIMITS FREE =
     \<lparr>qrCodesPerMonth = 10, dynamicQrCodes = 0, apiCallsPerMonth = 0,
      logoUploads = False, analytics = ''none'',
      exportFormats = [''png''], watermark = True\<rparr>"
| "PLAN_LIMITS PRO =
     \<lparr>qrCodesPerMonth = - 1, dynamicQrCodes = 50, apiCallsPerMonth = 10000,
      logoUploads = True, analytics = ''advanced'',
      exportFormats = [''png'', ''jpg'', ''svg'', ''pdf''], watermark = False\<rparr>"
| "PLAN_LIMITS BUSINESS =
     \<lparr>qrCodesPerMonth = - 1, dynamicQrCodes = 200, apiCallsPerMonth = 50000,
      logoUploads = True, analytics = ''advanced'',
      exportFormats = [''png'', ''jpg'', ''svg'', ''pdf''], watermark = False\<rparr>"
| "PLAN_LIMITS ENTERPRISE =
     \<lparr>qrCodesPerMonth = - 1, dynamicQrCodes = - 1, apiCallsPerMonth = - 1,
      logoUploads = True, analytics = ''advanced'',
      exportFormats = [''png'', ''jpg'', ''svg'', ''pdf''], watermark = False\<rparr>"

subsection \<open>The record store\<close>

text \<open>
  The Prisma client is not among the sources; the specification treats the persistence
  layer as a generic record store accessed through create, read, update and aggregate
  calls. Tables are lists in insertion order.
\<close>

text \<open>The filter \<open>status: { in: ['ACTIVE', 'TRIALING', 'PAST_DUE'] }\<close>.\<close>

definition isCurrentStatus :: "SubscriptionStatus \<Rightarrow> bool" where
  "isCurrentStatus st = (st = ACTIVE \<or> st = TRIALING \<or> st = PAST_DUE)"

text \<open>
  Modelled from the spec: \<open>findFirst\<close> of the missing Prisma client, with
  \<open>orderBy: { createdAt: 'desc' }\<close>: of the rows that match, the one with the greatest
  \<open>createdAt\<close>; among equal ones the earliest inserted.
\<close>

fun newestFirst :: "Subscription list \<Rightarrow> Subscription option" where
  "newestFirst [] = None"
| "newestFirst (s # ss) =
     (case newestFirst ss of
        None \<Rightarrow> Some s
      | Some r \<Rightarrow> if createdAt s < createdAt r then Some r else Some s)"

definition subscription_findFirst :: "Database \<Rightarrow> string \<Rightarrow> Subscription option" where
  "subscription_findFirst db uid =
     newestFirst (filter (\<lambda>s. userId s = uid \<and> isCurrentStatus (status s)) (subscriptions db))"

text \<open>
  Modelled from the spec: \<open>findUnique\<close> of the missing Prisma client by the row
  identifier.
\<close>

definition subscription_findUnique :: "Database \<Rightarrow> nat \<Rightarrow> Subscription option" where
  "subscription_findUnique db i = find (\<lambda>s. sub_id s = i) (subscriptions db)"

text \<open>
  Modelled from the spec: \<open>update\<close> of the missing Prisma client, setting the status of
  the row with the given identifier; it rejects when there is no such row.
\<close>

definition subscription_update ::
  "Database \<Rightarrow> nat \<Rightarrow> SubscriptionStatus \<Rightarrow> error + Database" where
  "subscription_update db i st =
     (if \<exists>s \<in> set (subscriptions db). sub_id s = i
      then Inr (db\<lparr>subscriptions :=
                  map (\<lambda>s. if sub_id s = i then s\<lparr>status := st\<rparr> else s) (subscriptions db)\<rparr>)
      else Inl RecordNotFound)"

text \<open>
  Modelled from the spec: \<open>create\<close> of the missing Prisma client with the user, plan
  type and status given. The new row gets a fresh identifier (the counter \<open>nextId\<close>)
  and the clock reading of the call as \<open>createdAt\<close>; the other columns are null.
\<close>

definition subscription_create ::
  "Database \<Rightarrow> time \<Rightarrow> string \<Rightarrow> PlanType \<Rightarrow> SubscriptionStatus \<Rightarrow> Database" where
  "subscription_create db now uid p st =
     db\<lparr>subscriptions := subscriptions db @
           [\<lparr>sub_id = nextId db, userId = uid, planType = p, status = st,
             trialStart = None, trialEnd = None,
             currentPeriodStart = None, currentPeriodEnd = None,
             stripeSubscriptionId = None, stripeCustomerId = None,
             createdAt = now\<rparr>],
        nextId := Suc (nextId db)\<rparr>"

text \<open>
  Modelled from the spec: \<open>aggregate\<close> of the missing Prisma client with
  \<open>_sum: { count: true }\<close> over the rows of a user and action type dated from \<open>lo\<close> to
  \<open>hi\<close>; the sum is null when no row matches.
\<close>

definition usageTracking_sum ::
  "Database \<Rightarrow> string \<Rightarrow> string \<Rightarrow> time \<Rightarrow> time \<Rightarrow> int option" where
  "usageTracking_sum db uid act lo hi =
     (let rows = filter (\<lambda>u. ut_userId u = uid \<and> actionType u = act \<and>
                              lo \<le> ut_date u \<and> ut_date u \<le> hi) (usageTracking db)
      in if rows = [] then None else Some (sum_list (map ut_count rows)))"

text \<open>
  Modelled from the spec: \<open>count\<close> of the missing Prisma client over the dynamic and
  active QR codes of a user.
\<close>

definition qrCode_countActiveDynamic :: "Database \<Rightarrow> string \<Rightarrow> int" where
  "qrCode_countActiveDynamic db uid =
     int (length (filter (\<lambda>q. qr_userId q = uid \<and> isDynamic q \<and> isActive q) (qrCodes db)))"

subsection \<open>Operations\<close>

definition expireTrial :: "Database \<Rightarrow> time \<Rightarrow> nat \<Rightarrow> error + Database" where
  "expireTrial db now subscriptionId =
     (case subscription_update db subscriptionId EXPIRED of
        Inl e \<Rightarrow> Inl e
      | Inr db1 \<Rightarrow>
          (case subscription_findUnique db1 subscriptionId of
             None \<Rightarrow> Inr db1
           | Some expiredSub \<Rightarrow>
               Inr (subscription_create db1 now (userId expiredSub) FREE ACTIVE)))"

text \<open>
  \<open>Math.max(0, Math.ceil(timeDiff / (1000 * 60 * 60 * 24)))\<close>; the quotient of two
  millisecond counts is taken exactly.
\<close>

definition daysLeft :: "time \<Rightarrow> time \<Rightarrow> int" where
  "daysLeft trialEnd_ms now =
     max 0 \<lceil>real_of_int (trialEnd_ms - now) / (1000 * 60 * 60 * 24)\<rceil>"

definition getSubscriptionInfo ::
  "Database \<Rightarrow> time \<Rightarrow> string \<Rightarrow> error + (SubscriptionInfo option \<times> Database)" where
  "getSubscriptionInfo db now uid =
     (case subscription_findFirst db uid of
        None \<Rightarrow> Inr (None, db)
      | Some subscription \<Rightarrow>
          (case (if planType subscription = TRIAL then trialEnd subscription else None) of
             None \<Rightarrow>
               Inr (Some \<lparr>info_planType = planType subscription,
                          info_status = status subscription,
                          trialDaysLeft = 0, isTrialActive = False,
                          info_currentPeriodEnd = currentPeriodEnd subscription\<rparr>, db)
           | Some te \<Rightarrow>
               (let days = daysLeft te now;
                    info = \<lparr>info_planType = planType subscription,
                            info_status = status subscription,
                            trialDaysLeft = days, isTrialActive = (days > 0),
                            info_currentPeriodEnd = currentPeriodEnd subscription\<rparr>
                in if days = 0 \<and> status subscription = TRIALING
                   then (case expireTrial db now (sub_id subscription) of
                           Inl e \<Rightarrow> Inl e
                         | Inr db' \<Rightarrow> Inr (Some info, db'))
                   else Inr (Some info, db))))"

text \<open>
  The fallback \<open>|| this.PLAN_LIMITS.FREE\<close> of the table lookup is never taken: the table
  has an entry for each of the five plan types.
\<close>

definition getPlanLimits ::
  "Database \<Rightarrow> time \<Rightarrow> string \<Rightarrow> error + (UsageLimits \<times> Database)" where
  "getPlanLimits db now uid =
     (case getSubscriptionInfo db now uid of
        Inl e \<Rightarrow> Inl e
      | Inr (None, db') \<Rightarrow> Inr (PLAN_LIMITS FREE, db')
      | Inr (Some subscriptionInfo, db') \<Rightarrow>
          Inr (PLAN_LIMITS (info_planType subscriptionInfo), db'))"

definition getCurrentMonthlyUsage ::
  "Calendar \<Rightarrow> Database \<Rightarrow> time \<Rightarrow> string \<Rightarrow> string \<Rightarrow> int" where
  "getCurrentMonthlyUsage cal db now uid act =
     (case usageTracking_sum db uid act (startOfMonth cal now) (endOfMonth cal now) of
        None \<Rightarrow> 0
      | Some c \<Rightarrow> if c = 0 then 0 else c)"

definition deny :: "string \<Rightarrow> ActionResult" where
  "deny msg = \<lparr>allowed = False, reason = Some msg, upgradeRequired = Some True\<rparr>"

definition allow :: ActionResult where
  "allow = \<lparr>allowed = True, reason = None, upgradeRequired = None\<rparr>"

text \<open>The \<open>switch (action)\<close> of \<open>canPerformAction\<close>; it only reads the store.\<close>

fun checkAction ::
  "Calendar \<Rightarrow> Database \<Rightarrow> time \<Rightarrow> string \<Rightarrow> UsageLimits \<Rightarrow> Action \<Rightarrow> ActionResult" where
  "checkAction cal db now uid limits logo_upload =
     (if \<not> logoUploads limits then deny ''Logo uploads not available in your plan''
      else allow)"
| "checkAction cal db now uid limits qr_generated =
     (if qrCodesPerMonth limits \<noteq> - 1 \<and>
         getCurrentMonthlyUsage cal db now uid ''QR_GENERATED'' \<ge> qrCodesPerMonth limits
      then deny ''Monthly QR code limit reached''
      else allow)"
| "checkAction cal db now uid limits api_call =
     (if apiCallsPerMonth limits = 0 then deny ''API access not available in your plan''
      else if apiCallsPerMonth limits \<noteq> - 1 \<and>
              getCurrentMonthlyUsage cal db now uid ''API_CALL'' \<ge> apiCallsPerMonth limits
      then deny ''Monthly API call limit reached''
      else allow)"
| "checkAction cal db now uid limits dynamic_qr =
     (if dynamicQrCodes limits = 0 then deny ''Dynamic QR codes not available in your plan''
      else if dynamicQrCodes limits \<noteq> - 1 \<and>
              qrCode_countActiveDynamic db uid \<ge> dynamicQrCodes limits
      then deny ''Dynamic QR code limit reached''
      else allow)"

text \<open>
  \<open>canPerformAction\<close> reads the clock up to three times: \<open>t1\<close> inside
  \<open>getPlanLimits\<close>, \<open>t2\<close> inside the second \<open>getSubscriptionInfo\<close>, \<open>t3\<close> inside
  \<open>getCurrentMonthlyUsage\<close>. The store is threaded through the two reads of the
  subscription, which may write to it.
\<close>

definition canPerformAction ::
  "Calendar \<Rightarrow> Database \<Rightarrow> time \<Rightarrow> time \<Rightarrow> time \<Rightarrow> string \<Rightarrow> Action \<Rightarrow>
     error + (ActionResult \<times> Database)" where
  "canPerformAction cal db t1 t2 t3 uid action =
     (case getPlanLimits db t1 uid of
        Inl e \<Rightarrow> Inl e
      | Inr (limits, db1) \<Rightarrow>
          (case getSubscriptionInfo db1 t2 uid of
             Inl e \<Rightarrow> Inl e
           | Inr (subscriptionInfo, db2) \<Rightarrow>
               (if (case subscriptionInfo of
                      None \<Rightarrow> False
                    | Some i \<Rightarrow> info_planType i = TRIAL \<and> \<not> isTrialActive i)
                then Inr (deny ''Trial has expired'', db2)
                else Inr (checkAction cal db2 t3 uid limits action, db2))))"

subsection \<open>Notions the properties are stated with\<close>

text \<open>
  The plan of a user: the plan type of the current subscription, and the FREE plan for a
  user who has none.
\<close>

definition currentPlan :: "Database \<Rightarrow> string \<Rightarrow> PlanType" where
  "currentPlan db uid =
     (case subscription_findFirst db uid of None \<Rightarrow> FREE | Some s \<Rightarrow> planType s)"

text \<open>
  A user is on an expired trial at a clock reading when the current subscription is a
  TRIAL with no remaining day (a trial with no end date has none).
\<close>

definition onExpiredTrial :: "Database \<Rightarrow> time \<Rightarrow> string \<Rightarrow> bool" where
  "onExpiredTrial db now uid =
     (case subscription_findFirst db uid of
        None \<Rightarrow> False
      | Some s \<Rightarrow> planType s = TRIAL \<and>
                  (case trialEnd s of None \<Rightarrow> True | Some te \<Rightarrow> daysLeft te now = 0))"

text \<open>
  The usage of the current calendar month: the sum of the day-bucketed counters of the
  user and action kind that are dated within the month of the clock reading.
\<close>

definition monthlyUsage :: "Calendar \<Rightarrow> Database \<Rightarrow> time \<Rightarrow> string \<Rightarrow> string \<Rightarrow> int" where
  "monthlyUsage cal db now uid act =
     sum_list (map ut_count
       (filter (\<lambda>u. ut_userId u = uid \<and> actionType u = act \<and>
                    startOfMonth cal now \<le> ut_date u \<and> ut_date u \<le> endOfMonth cal now)
          (usageTracking db)))"

text \<open>Row identifiers are unique and were handed out by the counter.\<close>

definition wf_ids :: "Database \<Rightarrow> bool" where
  "wf_ids db = (distinct (map sub_id (subscriptions db)) \<and>
                list_all (\<lambda>s. sub_id s < nextId db) (subscriptions db))"

text \<open>
  The store after the trial \<open>s\<close> was expired at the clock reading \<open>now\<close>: the record is
  EXPIRED and a FREE ACTIVE record of the same user is appended.
\<close>

definition afterExpiry :: "Database \<Rightarrow> Subscription \<Rightarrow> time \<Rightarrow> Database" where
  "afterExpiry db s now =
     db\<lparr>subscriptions :=
          map (\<lambda>r. if sub_id r = sub_id s then r\<lparr>status := EXPIRED\<rparr> else r) (subscriptions db) @
          [\<lparr>sub_id = nextId db, userId = userId s, planType = FREE, status = ACTIVE,
            trialStart = None, trialEnd = None,
            currentPeriodStart = None, currentPeriodEnd = None,
            stripeSubscriptionId = None, stripeCustomerId = None,
            createdAt = now\<rparr>],
        nextId := Suc (nextId db)\<rparr>"

subsection \<open>Example stores\<close>

text \<open>January 1970 in UTC: the month starts at 0 and its last day starts 30 days later.\<close>

definition january1970 :: Calendar where
  "january1970 = \<lparr>startOfMonth = (\<lambda>t. 0), endOfMonth = (\<lambda>t. 2592000000)\<rparr>"

text \<open>A user whose only subscription is a 14-day trial started at time 0.\<close>

definition trial_row :: Subscription where
  "trial_row =
     \<lparr>sub_id = 0, userId = ''u1'', planType = TRIAL, status = TRIALING,
      trialStart = Some 0, trialEnd = Some 1209600000,
      currentPeriodStart = None, currentPeriodEnd = None,
      stripeSubscriptionId = None, stripeCustomerId = None, createdAt = 0\<rparr>"

definition db_trial :: Database where
  "db_trial = \<lparr>subscriptions = [trial_row], usageTracking = [], qrCodes = [], nextId = 1\<rparr>"

text \<open>The same store after the trial was expired at time 1300000000 (its 16th day).\<close>

definition db_trial_expired :: Database where
  "db_trial_expired = \<lparr>subscriptions =
      [\<lparr>sub_id = 0, userId = ''u1'', planType = TRIAL, status = EXPIRED,
        trialStart = Some 0, trialEnd = Some 1209600000,
        currentPeriodStart = None, currentPeriodEnd = None,
        stripeSubscriptionId = None, stripeCustomerId = None, createdAt = 0\<rparr>,
       \<lparr>sub_id = 1, userId = ''u1'', planType = FREE, status = ACTIVE,
        trialStart = None, trialEnd = None,
        currentPeriodStart = None, currentPeriodEnd = None,
        stripeSubscriptionId = None, stripeCustomerId = None, createdAt = 1300000000\<rparr>],
     usageTracking = [], qrCodes = [], nextId = 2\<rparr>"

text \<open>
  A user on the FREE plan (quota 10) with two day counters of this month, 4 and \<open>n\<close>,
  beside a counter of another action kind and one of another user.
\<close>

definition db_free :: "int \<Rightarrow> Database" where
  "db_free n = \<lparr>subscriptions =
      [\<lparr>sub_id = 0, userId = ''u2'', planType = FREE, status = ACTIVE,
        trialStart = None, trialEnd = None,
        currentPeriodStart = None, currentPeriodEnd = None,
        stripeSubscriptionId = None, stripeCustomerId = None, createdAt = 0\<rparr>],
     usageTracking =
      [\<lparr>ut_userId = ''u2'', actionType = ''QR_GENERATED'', ut_count = 4, ut_date = 86400000\<rparr>,
       \<lparr>ut_userId = ''u2'', actionType = ''API_CALL'', ut_count = 50, ut_date = 86400000\<rparr>,
       \<lparr>ut_userId = ''u3'', actionType = ''QR_GENERATED'', ut_count = 70, ut_date = 86400000\<rparr>,
       \<lparr>ut_userId = ''u2'', actionType = ''QR_GENERATED'', ut_count = n, ut_date = 172800000\<rparr>],
     qrCodes = [], nextId = 1\<rparr>"

text \<open>An ENTERPRISE user with counters of 10,000,000 and two live dynamic codes.\<close>

definition db_enterprise :: Database where
  "db_enterprise = \<lparr>subscriptions =
      [\<lparr>sub_id = 0, userId = ''u4'', planType = ENTERPRISE, status = ACTIVE,
        trialStart = None, trialEnd = None,
        currentPeriodStart = Some 0, currentPeriodEnd = Some 2678400000,
        stripeSubscriptionId = Some ''sub_1'', stripeCustomerId = Some ''cus_1'',
        createdAt = 0\<rparr>],
     usageTracking =
      [\<lparr>ut_userId = ''u4'', actionType = ''QR_GENERATED'', ut_count = 10000000, ut_date = 86400000\<rparr>,
       \<lparr>ut_userId = ''u4'', actionType = ''API_CALL'', ut_count = 10000000, ut_date = 86400000\<rparr>],
     qrCodes =
      [\<lparr>qr_userId = ''u4'', isDynamic = True, isActive = True\<rparr>,
       \<lparr>qr_userId = ''u4'', isDynamic = True, isActive = True\<rparr>],
     nextId = 1\<rparr>"

section \<open>QR code service (qrCodeService.ts)\<close>

subsection \<open>Strings\<close>

text \<open>
  A string is the list of the bytes of its UTF-8 encoding, so every well-formed
  JavaScript string has one representation (a lone surrogate has none). \<open>x || d\<close> on an
  optional string takes \<open>d\<close> when \<open>x\<close> is undefined or empty.
\<close>

definition truthy :: "string option \<Rightarrow> bool" where
  "truthy x = (case x of None \<Rightarrow> False | Some s \<Rightarrow> s \<noteq> [])"

definition orElse :: "string option \<Rightarrow> string \<Rightarrow> string" where
  "orElse x d = (case x of None \<Rightarrow> d | Some s \<Rightarrow> if s = [] then d else s)"

text \<open>
  \<open>encodeURIComponent\<close>: every byte of the UTF-8 encoding outside the unreserved marks
  becomes \<open>%XX\<close> with upper-case digits.
\<close>

definition hexDigit :: "nat \<Rightarrow> char" where
  "hexDigit n = ''0123456789ABCDEF'' ! n"

definition uriUnreserved :: "char \<Rightarrow> bool" where
  "uriUnreserved c =
     (c \<in> set ''ABCDEFGHIJKLMNOPQRSTUVWXYZabcdefghijklmnopqrstuvwxyz0123456789-_.!~*'()'')"

definition encodeURIComponent :: "string \<Rightarrow> string" where
  "encodeURIComponent s =
     concat (map (\<lambda>c. if uriUnreserved c then [c]
                       else [CHR ''%'', hexDigit (of_char c div 16), hexDigit (of_char c mod 16)]) s)"

text \<open>
  \<open>String.prototype.trim\<close> removes white space and line terminators from both ends:
  U+0009 to U+000D, U+0020, U+00A0, U+1680, U+2000 to U+200A, U+2028, U+2029, U+202F,
  U+205F, U+3000 and U+FEFF, listed here by their UTF-8 encodings.
\<close>

definition whiteSpace :: "string list" where
  "whiteSpace =
     [[CHR 0x09], [CHR 0x0A], [CHR 0x0B], [CHR 0x0C], [CHR 0x0D], [CHR 0x20],
      [CHR 0xC2, CHR 0xA0], [CHR 0xE1, CHR 0x9A, CHR 0x80],
      [CHR 0xE2, CHR 0x80, CHR 0x80], [CHR 0xE2, CHR 0x80, CHR 0x81],
      [CHR 0xE2, CHR 0x80, CHR 0x82], [CHR 0xE2, CHR 0x80, CHR 0x83],
      [CHR 0xE2, CHR 0x80, CHR 0x84], [CHR 0xE2, CHR 0x80, CHR 0x85],
      [CHR 0xE2, CHR 0x80, CHR 0x86], [CHR 0xE2, CHR 0x80, CHR 0x87],
      [CHR 0xE2, CHR 0x80, CHR 0x88], [CHR 0xE2, CHR 0x80, CHR 0x89],
      [CHR 0xE2, CHR 0x80, CHR 0x8A], [CHR 0xE2, CHR 0x80, CHR 0xA8],
      [CHR 0xE2, CHR 0x80, CHR 0xA9], [CHR 0xE2, CHR 0x80, CHR 0xAF],
      [CHR 0xE2, CHR 0x81, CHR 0x9F], [CHR 0xE3, CHR 0x80, CHR 0x80],
      [CHR 0xEF, CHR 0xBB, CHR 0xBF]]"

text \<open>Removing the listed sequences from the front of a string, as long as one is there.\<close>

function dropLeading :: "string list \<Rightarrow> string \<Rightarrow> string" where
  "dropLeading ws s =
     (case find (\<lambda>w. w \<noteq> [] \<and> take (length w) s = w) ws of
        None \<Rightarrow> s
      | Some w \<Rightarrow> dropLeading ws (drop (length w) s))"
  by pat_completeness auto
termination
proof (relation "measure (\<lambda>(ws, s). length s)")
  show "wf (measure (\<lambda>(ws, s). length s))" by simp
next
  fix ws :: "string list" and s w :: string
  assume "find (\<lambda>w. w \<noteq> [] \<and> take (length w) s = w) ws = Some w"
  then have "w \<noteq> []" "take (length w) s = w" by (auto simp: find_Some_iff)
  then have "s \<noteq> []" by auto
  with \<open>w \<noteq> []\<close> show "((ws, drop (length w) s), (ws, s)) \<in> measure (\<lambda>(ws, s). length s)"
    by simp
qed

definition trim :: "string \<Rightarrow> string" where
  "trim s = rev (dropLeading (map rev whiteSpace) (rev (dropLeading whiteSpace s)))"

definition endsWith :: "string \<Rightarrow> char \<Rightarrow> bool" where
  "endsWith s c = (s \<noteq> [] \<and> last s = c)"

fun join :: "string \<Rightarrow> string list \<Rightarrow> string" where
  "join sep [] = []"
| "join sep [x] = x"
| "join sep (x # y # ys) = x @ sep @ join sep (y # ys)"

subsection \<open>Content formatter\<close>

text \<open>
  Modelled from the spec: the Prisma enum \<open>QrType\<close> is not among the sources; its members
  are the payload kinds of the specification, the cases of \<open>generateQrContent\<close>.
\<close>

datatype QrType = URL | TEXT | EMAIL | PHONE | SMS | WIFI | VCARD | LOCATION | SOCIAL | REVIEW

record VCardData =
  firstName :: "string option"
  lastName :: "string option"
  organization :: "string option"
  phone :: "string option"
  email :: "string option"
  url :: "string option"

record QrContentData =
  qrType :: QrType
  content :: string
  industryTemplate :: "string option"
  emailAddress :: "string option"
  emailSubject :: "string option"
  emailBody :: "string option"
  phoneNumber :: "string option"
  smsNumber :: "string option"
  smsMessage :: "string option"
  wifiSsid :: "string option"
  wifiPassword :: "string option"
  wifiSecurity :: "string option"
  wifiHidden :: "bool option"
  vcardData :: "VCardData option"
  latitude :: "string option"
  longitude :: "string option"
  socialPlatform :: "string option"
  socialHandle :: "string option"
  reviewUrl :: "string option"

text \<open>
  The object literal \<open>socialUrls\<close>. A lookup of a name it does not have goes to
  \<open>Object.prototype\<close>: \<open>objectPrototype\<close> gives the text that string concatenation
  makes of the inherited property (as V8 prints built-in functions), and a name found
  nowhere yields \<open>undefined\<close>.
\<close>

definition socialUrls :: "string \<Rightarrow> string option" where
  "socialUrls = map_of
     [(''twitter'', ''https://twitter.com/''),
      (''instagram'', ''https://instagram.com/''),
      (''facebook'', ''https://facebook.com/''),
      (''linkedin'', ''https://linkedin.com/in/''),
      (''youtube'', ''https://youtube.com/@''),
      (''tiktok'', ''https://tiktok.com/@''),
      (''github'', ''https://github.com/'')]"

definition objectPrototype :: "string \<Rightarrow> string option" where
  "objectPrototype name =
     (if name = ''__proto__'' then Some ''[object Object]''
      else if name = ''constructor'' then Some ''function Object() { [native code] }''
      else if name \<in> set [''__defineGetter__'', ''__defineSetter__'', ''hasOwnProperty'',
                ''__lookupGetter__'', ''__lookupSetter__'', ''isPrototypeOf'',
                ''propertyIsEnumerable'', ''toString'', ''valueOf'', ''toLocaleString'']
      then Some (''function '' @ name @ ''() { [native code] }'')
      else None)"

definition propertyText :: "string \<Rightarrow> string" where
  "propertyText platform =
     (case socialUrls platform of
        Some u \<Rightarrow> u
      | None \<Rightarrow> (case objectPrototype platform of Some t \<Rightarrow> t | None \<Rightarrow> ''undefined''))"

text \<open>The lines of the vCard array before and after its \<open>filter\<close>.\<close>

definition taggedLine :: "string \<Rightarrow> string option \<Rightarrow> string" where
  "taggedLine tag field = (if truthy field then tag @ orElse field [] else [])"

definition emptyVCard :: VCardData where
  "emptyVCard = \<lparr>firstName = None, lastName = None, organization = None,
                  phone = None, email = None, url = None\<rparr>"

definition vcardCandidates :: "VCardData \<Rightarrow> string list" where
  "vcardCandidates vcard =
     [''BEGIN:VCARD'',
      ''VERSION:3.0'',
      trim (''FN:'' @ orElse (firstName vcard) [] @ '' '' @ orElse (lastName vcard) []),
      taggedLine ''ORG:'' (organization vcard),
      taggedLine ''TEL:'' (phone vcard),
      taggedLine ''EMAIL:'' (email vcard),
      taggedLine ''URL:'' (url vcard),
      ''END:VCARD'']"

definition keptLine :: "string \<Rightarrow> bool" where
  "keptLine line = (line \<noteq> [] \<and> \<not> endsWith line (CHR '':''))"

definition vcardLines :: "VCardData \<Rightarrow> string list" where
  "vcardLines vcard = filter keptLine (vcardCandidates vcard)"

definition generateQrContent :: "QrContentData \<Rightarrow> string" where
  "generateQrContent d =
     (case qrType d of
        EMAIL \<Rightarrow>
          (let emailContent = ''mailto:'' @ orElse (emailAddress d) [];
               params =
                 (if truthy (emailSubject d)
                  then [''subject='' @ encodeURIComponent (orElse (emailSubject d) [])] else []) @
                 (if truthy (emailBody d)
                  then [''body='' @ encodeURIComponent (orElse (emailBody d) [])] else [])
           in if params \<noteq> [] then emailContent @ ''?'' @ join ''&'' params else emailContent)
      | PHONE \<Rightarrow> ''tel:'' @ orElse (phoneNumber d) []
      | SMS \<Rightarrow>
          ''sms:'' @ orElse (smsNumber d) [] @
          (if truthy (smsMessage d)
           then ''?body='' @ encodeURIComponent (orElse (smsMessage d) []) else [])
      | WIFI \<Rightarrow>
          (let security = orElse (wifiSecurity d) ''WPA'';
               hidden = (if wifiHidden d = Some True then ''true'' else ''false'')
           in ''WIFI:T:'' @ security @ '';S:'' @ orElse (wifiSsid d) [] @
              '';P:'' @ orElse (wifiPassword d) [] @ '';H:'' @ hidden @ '';;'')
      | VCARD \<Rightarrow>
          (let vcard = (case vcardData d of None \<Rightarrow> emptyVCard | Some v \<Rightarrow> v)
           in join [CHR 0x0A] (vcardLines vcard))
      | LOCATION \<Rightarrow>
          ''geo:'' @ orElse (latitude d) ''0'' @ '','' @ orElse (longitude d) ''0''
      | SOCIAL \<Rightarrow>
          (let platform = orElse (socialPlatform d) ''twitter'';
               handle = remove1 (CHR ''@'') (orElse (socialHandle d) [])
           in propertyText platform @ handle)
      | REVIEW \<Rightarrow> orElse (reviewUrl d) []
      | TEXT \<Rightarrow> content d
      | URL \<Rightarrow> content d)"

subsection \<open>Notions the formatter's properties are stated with\<close>

text \<open>Stripping a leading \<open>@\<close>, and the SOCIAL text as the specification words it.\<close>

definition stripLeadingAt :: "string \<Rightarrow> string" where
  "stripLeadingAt h = (case h of [] \<Rightarrow> [] | c # r \<Rightarrow> if c = CHR ''@'' then r else h)"

text \<open>
  A handle in which the first \<open>@\<close> is a leading one: it is empty, or begins with \<open>@\<close>, or
  has none.
\<close>

definition firstAtLeads :: "string \<Rightarrow> bool" where
  "firstAtLeads h = (h = [] \<or> hd h = CHR ''@'' \<or> CHR ''@'' \<notin> set h)"

definition social_as_claimed :: "string option \<Rightarrow> string option \<Rightarrow> string" where
  "social_as_claimed platform handle =
     (case (case platform of None \<Rightarrow> None | Some p \<Rightarrow> socialUrls p) of
        Some u \<Rightarrow> u
      | None \<Rightarrow> ''https://twitter.com/'') @ stripLeadingAt (orElse handle [])"

text \<open>
  Trimming at the end only; a line of a value: dropped when the value is empty or ends
  with a colon; what follows the first colon of a line, and the vCard lines as the
  specification words them (a line is dropped exactly when nothing follows its colon).
\<close>

definition trimEnd :: "string \<Rightarrow> string" where
  "trimEnd s = rev (dropLeading (map rev whiteSpace) (rev s))"

definition valueLine :: "string \<Rightarrow> string \<Rightarrow> string list" where
  "valueLine tag v = (if v = [] \<or> endsWith v (CHR '':'') then [] else [tag @ v])"

definition afterColon :: "string \<Rightarrow> string" where
  "afterColon line = drop 1 (dropWhile (\<lambda>c. c \<noteq> CHR '':'') line)"

definition vcardLines_as_claimed :: "VCardData \<Rightarrow> string list" where
  "vcardLines_as_claimed vcard = filter (\<lambda>line. afterColon line \<noteq> []) (vcardCandidates vcard)"

text \<open>No value of the card, as it is substituted into its line, ends with a colon.\<close>

definition noTrailingColon :: "VCardData \<Rightarrow> bool" where
  "noTrailingColon vcard =
     (\<not> endsWith
          (trimEnd (orElse (firstName vcard) [] @ '' '' @ orElse (lastName vcard) []))
          (CHR '':'') \<and>
      \<not> endsWith (orElse (organization vcard) []) (CHR '':'') \<and>
      \<not> endsWith (orElse (phone vcard) []) (CHR '':'') \<and>
      \<not> endsWith (orElse (email vcard) []) (CHR '':'') \<and>
      \<not> endsWith (orElse (url vcard) []) (CHR '':''))"

subsection \<open>Example payloads\<close>

definition blankContent :: "QrType \<Rightarrow> QrContentData" where
  "blankContent t = \<lparr>qrType = t, content = [], industryTemplate = None,
     emailAddress = None, emailSubject = None, emailBody = None, phoneNumber = None,
     smsNumber = None, smsMessage = None, wifiSsid = None, wifiPassword = None,
     wifiSecurity = None, wifiHidden = None, vcardData = None,
     latitude = None, longitude = None, socialPlatform = None, socialHandle = None,
     reviewUrl = None\<rparr>"

definition social :: "string option \<Rightarrow> string \<Rightarrow> QrContentData" where
  "social platform handle =
     (blankContent SOCIAL)\<lparr>socialPlatform := platform, socialHandle := Some handle\<rparr>"

definition vcard_jane :: VCardData where
  "vcard_jane = emptyVCard\<lparr>firstName := Some ''Jane''\<rparr>"

definition vcard_jane_acme :: VCardData where
  "vcard_jane_acme = emptyVCard\<lparr>firstName := Some ''Jane'', organization := Some ''Acme:''\<rparr>"

subsection \<open>Style renderer and logo compositor\<close>

text \<open>
  JavaScript numbers are taken as exact reals. The QR encoder (\<open>QRCode.create\<close>), the
  image decoder (\<open>loadImage\<close>) and the PNG encoder of the canvas (\<open>canvas.toBuffer\<close>)
  are parameters, collected in \<open>Imaging\<close>; \<open>getModule m r c\<close> is \<open>m.get(r, c)\<close>. The
  canvas is the list of the drawing calls made on its context, in order; a call of
  \<open>drawStyledModule\<close> is one entry. \<open>console.error\<close> appends to a log that is returned
  beside the result.
\<close>

datatype LogEntry = ConsoleError string error

datatype ErrorLevel = LevelL | LevelM | LevelQ | LevelH

record QrStyleConfig =
  sizePx :: real
  errorLevel :: ErrorLevel
  fgColor :: string
  bgColor :: string
  style :: string
  logoStyle :: "string option"

record BitMatrix =
  matrixSize :: nat
  getModule :: "nat \<Rightarrow> nat \<Rightarrow> bool"

datatype 'img CanvasOp =
    SetFillStyle string
  | FillRect real real real real
  | BeginPath
  | ClosePath
  | Fill
  | Clip
  | Save
  | Restore
  | MoveTo real real
  | LineTo real real
  | QuadraticCurveTo real real real real
  | Arc real real real real real
  | DrawImage 'img real real real real
  | DrawStyledModule real real real string string

record 'img Imaging =
  qrCreate :: "string \<Rightarrow> ErrorLevel \<Rightarrow> error + BitMatrix"
  loadImage :: "buffer \<Rightarrow> error + 'img"
  toBuffer :: "real \<Rightarrow> 'img CanvasOp list \<Rightarrow> buffer"

definition drawRoundedRect ::
  "real \<Rightarrow> real \<Rightarrow> real \<Rightarrow> real \<Rightarrow> real \<Rightarrow> 'img CanvasOp list" where
  "drawRoundedRect x y width height radius =
     [BeginPath,
      MoveTo (x + radius) y,
      LineTo (x + width - radius) y,
      QuadraticCurveTo (x + width) y (x + width) (y + radius),
      LineTo (x + width) (y + height - radius),
      QuadraticCurveTo (x + width) (y + height) (x + width - radius) (y + height),
      LineTo (x + radius) (y + height),
      QuadraticCurveTo x (y + height) x (y + height - radius),
      LineTo x (y + radius),
      QuadraticCurveTo x y (x + radius) y,
      ClosePath,
      Fill]"

text \<open>
  The whole body of \<open>addLogoToCanvas\<close> is inside \<open>try\<close>: when decoding the logo fails
  nothing is drawn and the error is logged.
\<close>

definition addLogoToCanvas ::
  "'img Imaging \<Rightarrow> buffer \<Rightarrow> real \<Rightarrow> string \<Rightarrow> 'img CanvasOp list \<times> LogEntry list" where
  "addLogoToCanvas lib logoBuffer canvasSize logoStyle' =
     (case loadImage lib logoBuffer of
        Inl e \<Rightarrow> ([], [ConsoleError ''Error adding logo to QR code:'' e])
      | Inr logo \<Rightarrow>
          (let logoSize = canvasSize * 0.2;
               logoX = (canvasSize - logoSize) / 2;
               logoY = (canvasSize - logoSize) / 2;
               bgPadding = logoSize * 0.1
           in ([SetFillStyle ''#ffffff''] @
               (if logoStyle' = ''circle''
                then [BeginPath,
                      Arc (logoX + logoSize / 2) (logoY + logoSize / 2)
                        (logoSize / 2 + bgPadding) 0 (2 * pi),
                      Fill]
                else if logoStyle' = ''rounded''
                then drawRoundedRect (logoX - bgPadding) (logoY - bgPadding)
                       (logoSize + bgPadding * 2) (logoSize + bgPadding * 2) bgPadding
                else [FillRect (logoX - bgPadding) (logoY - bgPadding)
                        (logoSize + bgPadding * 2) (logoSize + bgPadding * 2)]) @
               (if logoStyle' = ''circle''
                then [Save, BeginPath,
                      Arc (logoX + logoSize / 2) (logoY + logoSize / 2) (logoSize / 2) 0 (2 * pi),
                      Clip]
                else []) @
               [DrawImage logo logoX logoY logoSize logoSize] @
               (if logoStyle' = ''circle'' then [Restore] else []),
               [])))"

text \<open>
  The two nested loops over the module grid, with the values computed before them. A
  dark module is read as \<open>modules.get(col, row)\<close> and painted at
  \<open>(col * cellSize, row * cellSize)\<close> unless the logo area holds that corner.
\<close>

definition drawQrModules ::
  "BitMatrix \<Rightarrow> real \<Rightarrow> bool \<Rightarrow> real \<Rightarrow> real \<Rightarrow> string \<Rightarrow> string \<Rightarrow>
     'img CanvasOp list" where
  "drawQrModules modules cellSize hasLogo logoAreaStart logoAreaEnd style' fgColor' =
     concat (map (\<lambda>row.
       concat (map (\<lambda>col.
         if getModule modules col row
         then (let x = real col * cellSize;
                   y = real row * cellSize
               in if hasLogo \<and> x \<ge> logoAreaStart \<and> x \<le> logoAreaEnd \<and>
                     y \<ge> logoAreaStart \<and> y \<le> logoAreaEnd
                  then []
                  else [DrawStyledModule x y cellSize style' fgColor'])
         else [])
         [0..<matrixSize modules]))
       [0..<matrixSize modules])"

text \<open>
  \<open>styledQrCanvas\<close> is \<open>generateStyledQrCode\<close> up to its last line: the drawing calls
  made on the canvas, and what was logged. \<open>generateStyledQrCode\<close> returns the PNG
  encoding of that canvas. A failure of the encoder rejects the call.
\<close>

definition styledQrCanvas ::
  "'img Imaging \<Rightarrow> string \<Rightarrow> QrStyleConfig \<Rightarrow> buffer option \<Rightarrow>
     error + ('img CanvasOp list \<times> LogEntry list)" where
  "styledQrCanvas lib content' styleConfig logoBuffer =
     (case qrCreate lib content' (errorLevel styleConfig) of
        Inl e \<Rightarrow> Inl e
      | Inr modules \<Rightarrow>
          (let size = sizePx styleConfig;
               moduleCount = matrixSize modules;
               cellSize = size / real moduleCount;
               cleared = [SetFillStyle (bgColor styleConfig), FillRect 0 0 size size];
               logoAreaSize = (if logoBuffer \<noteq> None then size * 0.25 else 0);
               logoAreaStart = (size - logoAreaSize) / 2;
               logoAreaEnd = logoAreaStart + logoAreaSize;
               drawn = SetFillStyle (fgColor styleConfig) #
                       drawQrModules modules cellSize (logoBuffer \<noteq> None)
                         logoAreaStart logoAreaEnd (style styleConfig) (fgColor styleConfig);
               (logo, logged) =
                 (case logoBuffer of
                    None \<Rightarrow> ([], [])
                  | Some b \<Rightarrow>
                      addLogoToCanvas lib b size
                        (case logoStyle styleConfig of None \<Rightarrow> ''square'' | Some s \<Rightarrow> s))
           in Inr (cleared @ drawn @ logo, logged)))"

definition generateStyledQrCode ::
  "'img Imaging \<Rightarrow> string \<Rightarrow> QrStyleConfig \<Rightarrow> buffer option \<Rightarrow>
     error + (buffer \<times> LogEntry list)" where
  "generateStyledQrCode lib content' styleConfig logoBuffer =
     (case styledQrCanvas lib content' styleConfig logoBuffer of
        Inl e \<Rightarrow> Inl e
      | Inr (ops, logged) \<Rightarrow> Inr (toBuffer lib (sizePx styleConfig) ops, logged))"

subsection \<open>Format converter\<close>

text \<open>
  The \<open>sharp\<close> library is a parameter. \<open>metadata lib b\<close> is \<open>sharp(b)\<close> followed by
  \<open>await image.metadata()\<close>; \<open>compositeToBuffer lib b overlay\<close> is
  \<open>image.composite([{ input: overlay, gravity: 'southeast' }]).toBuffer()\<close>;
  \<open>jpegToBuffer lib q b\<close> and \<open>pngToBuffer lib q b\<close> are \<open>sharp(b).jpeg({ quality: q })\<close>
  and \<open>sharp(b).png({ quality: q })\<close> followed by \<open>toBuffer()\<close>.
\<close>

datatype Format = png | jpg | svg | pdf

record Sharp =
  metadata :: "buffer \<Rightarrow> error + (nat option \<times> nat option)"
  compositeToBuffer :: "buffer \<Rightarrow> string \<Rightarrow> error + buffer"
  jpegToBuffer :: "nat \<Rightarrow> buffer \<Rightarrow> error + buffer"
  pngToBuffer :: "nat \<Rightarrow> buffer \<Rightarrow> error + buffer"

text \<open>The text of the width and height in the overlay, and of \<open>width - 10\<close>.\<close>

fun showNat :: "nat \<Rightarrow> string" where
  "showNat n = (if n < 10 then [''0123456789'' ! n]
                else showNat (n div 10) @ [''0123456789'' ! (n mod 10)])"

definition showInt :: "int \<Rightarrow> string" where
  "showInt i = (if i < 0 then ''-'' @ showNat (nat (- i)) else showNat (nat i))"

definition dimensionText :: "nat option \<Rightarrow> string" where
  "dimensionText d = (case d of None \<Rightarrow> ''undefined'' | Some n \<Rightarrow> showNat n)"

definition offsetText :: "nat option \<Rightarrow> string" where
  "offsetText d = (case d of None \<Rightarrow> ''NaN'' | Some n \<Rightarrow> showInt (int n - 10))"

definition watermarkSvg :: "nat option \<Rightarrow> nat option \<Rightarrow> string" where
  \<open>watermarkSvg width height =
     ''\<newline>        <svg width="'' @ dimensionText width @ ''" height="'' @ dimensionText height @
     ''">\<newline>          <text x="'' @ offsetText width @ ''" y="'' @ offsetText height @
     ''" \<newline>                font-family="Arial" font-size="12" \<newline>'' @
     ''                fill="rgba(0,0,0,0.5)" text-anchor="end">\<newline>'' @
     ''            QR Generator Pro\<newline>          </text>\<newline>        </svg>\<newline>      ''\<close>

text \<open>
  In \<open>addWatermark\<close> the metadata is awaited inside \<open>try\<close>, so its failure is caught:
  it is logged and the input buffer is returned. The promise of
  \<open>composite(...).toBuffer()\<close> is returned without \<open>await\<close>: the \<open>try\<close> block is left
  before that promise settles, and its rejection is the rejection of \<open>addWatermark\<close>.
\<close>

definition addWatermark :: "Sharp \<Rightarrow> buffer \<Rightarrow> (error + buffer) \<times> LogEntry list" where
  "addWatermark lib qrBuffer =
     (case metadata lib qrBuffer of
        Inl e \<Rightarrow> (Inr qrBuffer, [ConsoleError ''Error adding watermark:'' e])
      | Inr (width, height) \<Rightarrow>
          (compositeToBuffer lib qrBuffer (watermarkSvg width height), []))"

text \<open>
  \<open>convertToFormat\<close> has no \<open>try\<close>: a rejection of \<open>addWatermark\<close> rejects it. The
  type of \<open>format\<close> has the four members of \<open>Format\<close>, so the \<open>default\<close> branch of the
  \<open>switch\<close> is not reached.
\<close>

definition convertToFormat ::
  "Sharp \<Rightarrow> buffer \<Rightarrow> Format \<Rightarrow> bool \<Rightarrow> (error + buffer) \<times> LogEntry list" where
  "convertToFormat lib qrBuffer format watermarked =
     (let (processed, logged) =
            (if watermarked then addWatermark lib qrBuffer else (Inr qrBuffer, []))
      in case processed of
           Inl e \<Rightarrow> (Inl e, logged)
         | Inr processedBuffer \<Rightarrow>
             (case format of
                jpg \<Rightarrow> (jpegToBuffer lib 90 processedBuffer, logged)
              | png \<Rightarrow> (pngToBuffer lib 90 processedBuffer, logged)
              | svg \<Rightarrow> (Inr processedBuffer, logged)
              | pdf \<Rightarrow> (Inr processedBuffer, logged)))"

subsection \<open>Notions the renderer's properties are stated with\<close>

text \<open>
  The keep-out zone: the square of side \<open>0.25 \<times> canvasSize\<close> centred on the canvas,
  border included. The dark modules in the order of the loops, the top-left corner of a
  module, the call that paints it, and the calls that fill the background.
\<close>

definition inKeepOutZone :: "real \<Rightarrow> real \<times> real \<Rightarrow> bool" where
  "inKeepOutZone canvasSize p =
     (\<bar>fst p - canvasSize / 2\<bar> \<le> 0.25 * canvasSize / 2 \<and>
      \<bar>snd p - canvasSize / 2\<bar> \<le> 0.25 * canvasSize / 2)"

definition darkModules :: "BitMatrix \<Rightarrow> (nat \<times> nat) list" where
  "darkModules modules =
     filter (\<lambda>(row, col). getModule modules col row)
       (List.product [0..<matrixSize modules] [0..<matrixSize modules])"

definition cornerOf :: "QrStyleConfig \<Rightarrow> BitMatrix \<Rightarrow> nat \<times> nat \<Rightarrow> real \<times> real" where
  "cornerOf styleConfig modules rc =
     (real (snd rc) * (sizePx styleConfig / real (matrixSize modules)),
      real (fst rc) * (sizePx styleConfig / real (matrixSize modules)))"

definition paintModule :: "QrStyleConfig \<Rightarrow> BitMatrix \<Rightarrow> nat \<times> nat \<Rightarrow> 'img CanvasOp" where
  "paintModule styleConfig modules rc =
     DrawStyledModule (fst (cornerOf styleConfig modules rc)) (snd (cornerOf styleConfig modules rc))
       (sizePx styleConfig / real (matrixSize modules)) (style styleConfig) (fgColor styleConfig)"

definition background :: "QrStyleConfig \<Rightarrow> 'img CanvasOp list" where
  "background styleConfig =
     [SetFillStyle (bgColor styleConfig),
      FillRect 0 0 (sizePx styleConfig) (sizePx styleConfig),
      SetFillStyle (fgColor styleConfig)]"

subsection \<open>Example renderings\<close>

text \<open>
  A 4 by 4 grid with a chessboard of dark modules on a canvas of side 8; a decoder that
  rejects the empty buffer; a \<open>sharp\<close> for an image whose header reads and whose pixel
  data does not.
\<close>

definition toyMatrix :: BitMatrix where
  "toyMatrix = \<lparr>matrixSize = 4, getModule = (\<lambda>row col. even (row + col))\<rparr>"

definition toyStyle :: QrStyleConfig where
  "toyStyle = \<lparr>sizePx = 8, errorLevel = LevelM, fgColor = ''#000000'', bgColor = ''#ffffff'',
                style = ''square'', logoStyle = None\<rparr>"

definition toyImaging :: "buffer Imaging" where
  "toyImaging =
     \<lparr>qrCreate = (\<lambda>text level. Inr toyMatrix),
      loadImage = (\<lambda>b. if b = [] then Inl (LibraryError ''Unsupported image type'')
                        else Inr b),
      toBuffer = (\<lambda>side ops. [])\<rparr>"

text \<open>
  A \<open>sharp\<close> whose operations succeed: compositing appends the bytes of the overlay to
  the image, and an encoder puts its quality before the bytes it is given.
\<close>

definition stampingSharp :: Sharp where
  "stampingSharp =
     \<lparr>metadata = (\<lambda>b. Inr (Some 300, Some 300)),
      compositeToBuffer = (\<lambda>b overlay. Inr (b @ map of_char overlay)),
      jpegToBuffer = (\<lambda>quality b. Inr (of_nat quality # b)),
      pngToBuffer = (\<lambda>quality b. Inr (of_nat quality # b))\<rparr>"

definition truncatedPng :: Sharp where
  "truncatedPng =
     \<lparr>metadata = (\<lambda>b. Inr (Some 300, Some 300)),
      compositeToBuffer = (\<lambda>b overlay. Inl (LibraryError ''pngload_buffer: libspng read error'')),
      jpegToBuffer = (\<lambda>quality b. Inl (LibraryError ''pngload_buffer: libspng read error'')),
      pngToBuffer = (\<lambda>quality b. Inl (LibraryError ''pngload_buffer: libspng read error''))\<rparr>"

section \<open>Properties of the usage gate\<close>

subsection \<open>Remaining trial days\<close>

lemma daysLeft_eq: "daysLeft te now = max 0 (- ((now - te) div 86400000))"
proof -
  have "real_of_int (te - now) / (1000 * 60 * 60 * 24) =
        - (real_of_int (now - te) / real_of_int 86400000)"
    by (simp add: field_simps)
  then have "\<lceil>real_of_int (te - now) / (1000 * 60 * 60 * 24)\<rceil> =
             - \<lfloor>real_of_int (now - te) / real_of_int 86400000\<rfloor>"
    by (simp only: ceiling_def minus_minus)
  also have "\<dots> = - ((now - te) div 86400000)"
    by (simp only: floor_divide_of_int_eq)
  finally show ?thesis by (simp only: daysLeft_def)
qed

lemma daysLeft_nonneg: "0 \<le> daysLeft te now"
  by (simp add: daysLeft_def)

lemma daysLeft_antimono:
  assumes "t1 \<le> t2"
  shows "daysLeft te t2 \<le> daysLeft te t1"
proof -
  from assms have "(t1 - te) div 86400000 \<le> (t2 - te) div 86400000"
    by (intro zdiv_mono1) simp_all
  then show ?thesis by (simp add: daysLeft_eq)
qed

lemma daysLeft_past:
  assumes "te \<le> now"
  shows "daysLeft te now = 0"
proof -
  from assms have "0 \<le> (now - te) div 86400000"
    by (simp add: pos_imp_zdiv_nonneg_iff)
  then show ?thesis by (simp add: daysLeft_eq)
qed

subsection \<open>Reading the current subscription\<close>

lemma newestFirst_mem: "newestFirst xs = Some s \<Longrightarrow> s \<in> set xs"
  by (induction xs arbitrary: s) (auto split: option.splits if_splits)

lemma findFirst_props:
  assumes "subscription_findFirst db uid = Some s"
  shows "s \<in> set (subscriptions db)" "userId s = uid" "isCurrentStatus (status s)"
  using newestFirst_mem
    [of "filter (\<lambda>s. userId s = uid \<and> isCurrentStatus (status s)) (subscriptions db)" s] assms
  by (auto simp: subscription_findFirst_def)

text \<open>For a user who is not on an expired trial the read leaves the store as it is.\<close>

lemma getSubscriptionInfo_pure:
  assumes "\<not> onExpiredTrial db now uid"
  shows "\<exists>i. getSubscriptionInfo db now uid = Inr (i, db) \<and>
             (case i of
                None \<Rightarrow> subscription_findFirst db uid = None
              | Some info \<Rightarrow> info_planType info = currentPlan db uid \<and>
                  \<not> (info_planType info = TRIAL \<and> \<not> isTrialActive info))"
proof (cases "subscription_findFirst db uid")
  case None
  then show ?thesis by (simp add: getSubscriptionInfo_def)
next
  case (Some s)
  show ?thesis
  proof (cases "planType s = TRIAL")
    case False
    with Some show ?thesis by (simp add: getSubscriptionInfo_def currentPlan_def)
  next
    case True
    with Some assms obtain te where te: "trialEnd s = Some te" "daysLeft te now \<noteq> 0"
      by (auto simp: onExpiredTrial_def split: option.splits)
    with daysLeft_nonneg [of te now] have "0 < daysLeft te now" by simp
    with Some True te show ?thesis
      by (simp add: getSubscriptionInfo_def currentPlan_def Let_def)
  qed
qed

lemma onExpiredTrial_mono:
  assumes "t1 \<le> t2" "onExpiredTrial db t1 uid"
  shows "onExpiredTrial db t2 uid"
proof -
  have "daysLeft te t2 = 0" if "daysLeft te t1 = 0" for te
    using that daysLeft_antimono [OF assms(1), of te] daysLeft_nonneg [of te t2] by simp
  with assms(2) show ?thesis
    by (auto simp: onExpiredTrial_def split: option.splits)
qed

lemma getCurrentMonthlyUsage_eq:
  "getCurrentMonthlyUsage cal db now uid act = monthlyUsage cal db now uid act"
  by (simp add: getCurrentMonthlyUsage_def usageTracking_sum_def monthlyUsage_def Let_def)

subsection \<open>Expiring a trial\<close>

lemma find_map_expire:
  assumes "s \<in> set xs" "distinct (map sub_id xs)"
  shows "find (\<lambda>r. sub_id r = sub_id s)
           (map (\<lambda>r. if sub_id r = sub_id s then r\<lparr>status := EXPIRED\<rparr> else r) xs)
         = Some (s\<lparr>status := EXPIRED\<rparr>)"
  using assms
proof (induction xs)
  case Nil
  then show ?case by simp
next
  case (Cons x xs)
  show ?case
  proof (cases "x = s")
    case True
    then show ?thesis by simp
  next
    case False
    with Cons.prems have "s \<in> set xs" by simp
    with Cons.prems have "sub_id x \<noteq> sub_id s" by force
    with Cons \<open>s \<in> set xs\<close> show ?thesis by simp
  qed
qed

lemma find_append_Some: "find P xs = Some x \<Longrightarrow> find P (xs @ ys) = Some x"
  by (induction xs) (auto split: if_splits)

lemma expireTrial_result:
  assumes "s \<in> set (subscriptions db)" "distinct (map sub_id (subscriptions db))"
  shows "expireTrial db now (sub_id s) =
           Inr (db\<lparr>subscriptions :=
                  map (\<lambda>r. if sub_id r = sub_id s then r\<lparr>status := EXPIRED\<rparr> else r)
                    (subscriptions db) @
                  [\<lparr>sub_id = nextId db, userId = userId s, planType = FREE, status = ACTIVE,
                    trialStart = None, trialEnd = None,
                    currentPeriodStart = None, currentPeriodEnd = None,
                    stripeSubscriptionId = None, stripeCustomerId = None,
                    createdAt = now\<rparr>],
                  nextId := Suc (nextId db)\<rparr>)"
proof -
  from assms(1) have "\<exists>r \<in> set (subscriptions db). sub_id r = sub_id s" by blast
  then have upd: "subscription_update db (sub_id s) EXPIRED =
      Inr (db\<lparr>subscriptions :=
             map (\<lambda>r. if sub_id r = sub_id s then r\<lparr>status := EXPIRED\<rparr> else r)
               (subscriptions db)\<rparr>)"
    by (simp add: subscription_update_def)
  show ?thesis
    by (simp add: expireTrial_def upd subscription_findUnique_def find_map_expire [OF assms]
        subscription_create_def)
qed

text \<open>The two reads of the example trial user on the 16th day.\<close>

lemma findFirst_db_trial: "subscription_findFirst db_trial ''u1'' = Some trial_row"
  by (simp add: subscription_findFirst_def db_trial_def trial_row_def isCurrentStatus_def)

lemma read_db_trial:
  "getSubscriptionInfo db_trial 1300000000 ''u1'' =
     Inr (Some \<lparr>info_planType = TRIAL, info_status = TRIALING, trialDaysLeft = 0,
                isTrialActive = False, info_currentPeriodEnd = None\<rparr>, db_trial_expired)"
  unfolding getSubscriptionInfo_def findFirst_db_trial
  by (simp add: daysLeft_eq expireTrial_def subscription_update_def
      subscription_findUnique_def subscription_create_def
      db_trial_def trial_row_def db_trial_expired_def)

lemma read_db_trial_expired:
  "getSubscriptionInfo db_trial_expired 1300000000 ''u1'' =
     Inr (Some \<lparr>info_planType = FREE, info_status = ACTIVE, trialDaysLeft = 0,
                isTrialActive = False, info_currentPeriodEnd = None\<rparr>, db_trial_expired)"
  by (simp add: getSubscriptionInfo_def db_trial_expired_def subscription_findFirst_def
      isCurrentStatus_def)

text \<open>
  A user whose only current subscription is an ended trial in status TRIALING: the read
  inside \<open>getPlanLimits\<close> expires the trial, the second read finds the FREE fallback,
  and the action is checked against the TRIAL limits; the answer is never the denial
  for an expired trial.
\<close>

lemma getSubscriptionInfo_expiring:
  assumes cur: "subscription_findFirst db uid = Some s"
      and trial: "planType s = TRIAL" "status s = TRIALING"
      and ended: "trialEnd s = Some te" "te \<le> now"
      and ids: "wf_ids db"
  shows "getSubscriptionInfo db now uid =
           Inr (Some \<lparr>info_planType = TRIAL, info_status = TRIALING, trialDaysLeft = 0,
                      isTrialActive = False,
                      info_currentPeriodEnd = currentPeriodEnd s\<rparr>, afterExpiry db s now)"
proof -
  from cur have mem: "s \<in> set (subscriptions db)" by (rule findFirst_props)
  from ids have dist: "distinct (map sub_id (subscriptions db))" by (simp add: wf_ids_def)
  from ended have days: "daysLeft te now = 0" by (simp add: daysLeft_past)
  show ?thesis
    using cur trial ended(1) days
    by (simp add: getSubscriptionInfo_def expireTrial_result [OF mem dist] afterExpiry_def)
qed

lemma findFirst_afterExpiry:
  assumes cur: "subscription_findFirst db uid = Some s"
      and ids: "wf_ids db"
      and only: "filter (\<lambda>r. userId r = uid \<and> isCurrentStatus (status r)) (subscriptions db) = [s]"
  shows "subscription_findFirst (afterExpiry db s now) uid =
           Some \<lparr>sub_id = nextId db, userId = uid, planType = FREE, status = ACTIVE,
                 trialStart = None, trialEnd = None,
                 currentPeriodStart = None, currentPeriodEnd = None,
                 stripeSubscriptionId = None, stripeCustomerId = None,
                 createdAt = now\<rparr>"
proof -
  let ?cur = "\<lambda>r. userId r = uid \<and> isCurrentStatus (status r)"
  let ?f = "\<lambda>r. if sub_id r = sub_id s then r\<lparr>status := EXPIRED\<rparr> else r"
  from cur have uid: "userId s = uid" by (rule findFirst_props)
  have "\<not> ?cur (?f r)" if r: "r \<in> set (subscriptions db)" for r
  proof (cases "sub_id r = sub_id s")
    case True
    then show ?thesis by (simp add: isCurrentStatus_def)
  next
    case False
    have "r \<notin> set [s]" using False by auto
    with only have "r \<notin> set (filter ?cur (subscriptions db))" by simp
    with r have "\<not> ?cur r" by simp
    with False show ?thesis by simp
  qed
  then have "\<forall>x \<in> set (map ?f (subscriptions db)). \<not> ?cur x"
    unfolding set_map by blast
  then have "filter ?cur (map ?f (subscriptions db)) = []"
    by (simp only: filter_False)
  then show ?thesis
    by (simp add: subscription_findFirst_def afterExpiry_def uid isCurrentStatus_def)
qed

lemma checkAction_reason:
  "reason (checkAction cal db now uid limits action) \<noteq> Some ''Trial has expired''"
  by (cases action) (simp_all add: deny_def allow_def)

lemma canPerformAction_expired_trial:
  assumes cur: "subscription_findFirst db uid = Some s"
      and trial: "planType s = TRIAL" "status s = TRIALING"
      and ended: "trialEnd s = Some te" "te \<le> t1"
      and ids: "wf_ids db"
      and only: "filter (\<lambda>r. userId r = uid \<and> isCurrentStatus (status r)) (subscriptions db) = [s]"
  shows "canPerformAction cal db t1 t2 t3 uid action =
           Inr (checkAction cal (afterExpiry db s t1) t3 uid (PLAN_LIMITS TRIAL) action,
                afterExpiry db s t1)"
proof -
  have first: "getPlanLimits db t1 uid = Inr (PLAN_LIMITS TRIAL, afterExpiry db s t1)"
    by (simp add: getPlanLimits_def getSubscriptionInfo_expiring [OF cur trial ended ids])
  have second: "getSubscriptionInfo (afterExpiry db s t1) t2 uid =
      Inr (Some \<lparr>info_planType = FREE, info_status = ACTIVE, trialDaysLeft = 0,
                 isTrialActive = False, info_currentPeriodEnd = None\<rparr>, afterExpiry db s t1)"
    by (simp add: getSubscriptionInfo_def findFirst_afterExpiry [OF cur ids only])
  show ?thesis
    by (simp add: canPerformAction_def first second)
qed

subsection \<open>The claims\<close>

text \<open>
  C1. A user whose plan has a finite monthly QR quota \<open>q\<close> and who is not on an expired
  trial is denied \<open>qr_generated\<close> when the usage of the current calendar month is at
  least \<open>q\<close> and allowed when it is below \<open>q\<close>; the store is left as it is. The clock
  does not run backwards between the reads.
\<close>

theorem canPerformAction_qr_quota:
  assumes clock: "t1 \<le> t2"
      and live: "\<not> onExpiredTrial db t2 uid"
      and quota: "qrCodesPerMonth (PLAN_LIMITS (currentPlan db uid)) = q"
      and finite_quota: "q \<noteq> - 1"
  shows "canPerformAction cal db t1 t2 t3 uid qr_generated =
           Inr (if q \<le> monthlyUsage cal db t3 uid ''QR_GENERATED''
                then \<lparr>allowed = False, reason = Some ''Monthly QR code limit reached'',
                      upgradeRequired = Some True\<rparr>
                else \<lparr>allowed = True, reason = None, upgradeRequired = None\<rparr>, db)"
proof -
  from clock live have live1: "\<not> onExpiredTrial db t1 uid"
    using onExpiredTrial_mono by blast
  from getSubscriptionInfo_pure [OF live1] obtain i1 where
    i1: "getSubscriptionInfo db t1 uid = Inr (i1, db)"
        "case i1 of
           None \<Rightarrow> subscription_findFirst db uid = None
         | Some info \<Rightarrow> info_planType info = currentPlan db uid \<and>
             \<not> (info_planType info = TRIAL \<and> \<not> isTrialActive info)"
    by blast
  from getSubscriptionInfo_pure [OF live] obtain i2 where
    i2: "getSubscriptionInfo db t2 uid = Inr (i2, db)"
        "case i2 of
           None \<Rightarrow> subscription_findFirst db uid = None
         | Some info \<Rightarrow> info_planType info = currentPlan db uid \<and>
             \<not> (info_planType info = TRIAL \<and> \<not> isTrialActive info)"
    by blast
  from i1 have lim: "getPlanLimits db t1 uid = Inr (PLAN_LIMITS (currentPlan db uid), db)"
    by (auto simp: getPlanLimits_def currentPlan_def split: option.splits)
  from i2(2) have gate:
    "\<not> (case i2 of None \<Rightarrow> False
                  | Some i \<Rightarrow> info_planType i = TRIAL \<and> \<not> isTrialActive i)"
    by (auto split: option.splits)
  show ?thesis
    using lim i2(1) gate quota finite_quota
    by (simp add: canPerformAction_def deny_def allow_def getCurrentMonthlyUsage_eq)
qed

theorem canPerformAction_qr_quota_witness:
  "(1300000000::int) \<le> 1300000001 \<and>
   \<not> onExpiredTrial (db_free 6) 1300000001 ''u2'' \<and>
   qrCodesPerMonth (PLAN_LIMITS (currentPlan (db_free 6) ''u2'')) = 10 \<and>
   (10::int) \<noteq> - 1 \<and>
   monthlyUsage january1970 (db_free 6) 1300000002 ''u2'' ''QR_GENERATED'' = 10 \<and>
   canPerformAction january1970 (db_free 6) 1300000000 1300000001 1300000002 ''u2'' qr_generated =
     Inr (\<lparr>allowed = False, reason = Some ''Monthly QR code limit reached'',
           upgradeRequired = Some True\<rparr>, db_free 6) \<and>
   monthlyUsage january1970 (db_free 5) 1300000002 ''u2'' ''QR_GENERATED'' = 9 \<and>
   canPerformAction january1970 (db_free 5) 1300000000 1300000001 1300000002 ''u2'' qr_generated =
     Inr (\<lparr>allowed = True, reason = None, upgradeRequired = None\<rparr>, db_free 5)"
proof -
  have cur: "subscription_findFirst (db_free n) ''u2'' = Some (hd (subscriptions (db_free n)))"
    for n
    by (simp add: subscription_findFirst_def db_free_def isCurrentStatus_def)
  have h1: "(1300000000::int) \<le> 1300000001" by simp
  have h2: "\<not> onExpiredTrial (db_free n) 1300000001 ''u2''" for n
    by (simp add: onExpiredTrial_def cur) (simp add: db_free_def)
  have h3: "qrCodesPerMonth (PLAN_LIMITS (currentPlan (db_free n) ''u2'')) = 10" for n
    by (simp add: currentPlan_def cur) (simp add: db_free_def)
  have h4: "(10::int) \<noteq> - 1" by simp
  have u: "monthlyUsage january1970 (db_free n) 1300000002 ''u2'' ''QR_GENERATED'' = 4 + n"
    for n
    by (simp add: monthlyUsage_def db_free_def january1970_def)
  show ?thesis
    using canPerformAction_qr_quota
        [OF h1 h2 [of 6] h3 [of 6] h4, where cal = january1970 and ?t3.0 = 1300000002]
      canPerformAction_qr_quota
        [OF h1 h2 [of 5] h3 [of 5] h4, where cal = january1970 and ?t3.0 = 1300000002]
      h2 [of 6] h3 [of 6]
    by (simp add: u)
qed

text \<open>
  C2, evaluated on the code. The claim: a user whose current subscription is a TRIAL
  with no remaining day is denied every action with "Trial has expired". On the code,
  for the user of \<open>db_trial\<close> on the 16th day and the action \<open>logo_upload\<close>: the read
  inside \<open>getPlanLimits\<close> takes the TRIAL limits and expires the trial, the second read
  then finds the FREE fallback, the trial check is passed over, and the upload is
  allowed under the TRIAL limits.
\<close>

theorem canPerformAction_expired_trial_allowed:
  "subscription_findFirst db_trial ''u1'' = Some trial_row \<and>
   planType trial_row = TRIAL \<and>
   trialEnd trial_row = Some 1209600000 \<and>
   daysLeft 1209600000 1300000000 = 0 \<and>
   canPerformAction january1970 db_trial 1300000000 1300000000 1300000000 ''u1'' logo_upload =
     Inr (\<lparr>allowed = True, reason = None, upgradeRequired = None\<rparr>, db_trial_expired)"
  by (simp add: findFirst_db_trial canPerformAction_def getPlanLimits_def read_db_trial
      read_db_trial_expired allow_def daysLeft_eq) (simp add: trial_row_def)

text \<open>
  C3. A user whose current subscription is on the ENTERPRISE plan is allowed every
  action, whatever the usage counters and the number of live dynamic codes; the store
  is left as it is.
\<close>

theorem canPerformAction_enterprise:
  assumes "subscription_findFirst db uid = Some s" and "planType s = ENTERPRISE"
  shows "canPerformAction cal db t1 t2 t3 uid action =
           Inr (\<lparr>allowed = True, reason = None, upgradeRequired = None\<rparr>, db)"
proof -
  from assms have info: "getSubscriptionInfo db now uid =
      Inr (Some \<lparr>info_planType = ENTERPRISE, info_status = status s,
                 trialDaysLeft = 0, isTrialActive = False,
                 info_currentPeriodEnd = currentPeriodEnd s\<rparr>, db)" for now
    by (simp add: getSubscriptionInfo_def)
  then have "getPlanLimits db t1 uid = Inr (PLAN_LIMITS ENTERPRISE, db)"
    by (simp add: getPlanLimits_def)
  with info [of t2] show ?thesis
    by (cases action) (simp_all add: canPerformAction_def allow_def)
qed

theorem canPerformAction_enterprise_witness:
  "subscription_findFirst db_enterprise ''u4'' = Some (hd (subscriptions db_enterprise)) \<and>
   planType (hd (subscriptions db_enterprise)) = ENTERPRISE \<and>
   monthlyUsage january1970 db_enterprise 5 ''u4'' ''QR_GENERATED'' = 10000000 \<and>
   monthlyUsage january1970 db_enterprise 5 ''u4'' ''API_CALL'' = 10000000 \<and>
   canPerformAction january1970 db_enterprise 3 4 5 ''u4'' qr_generated =
     Inr (\<lparr>allowed = True, reason = None, upgradeRequired = None\<rparr>, db_enterprise) \<and>
   canPerformAction january1970 db_enterprise 3 4 5 ''u4'' api_call =
     Inr (\<lparr>allowed = True, reason = None, upgradeRequired = None\<rparr>, db_enterprise) \<and>
   canPerformAction january1970 db_enterprise 3 4 5 ''u4'' dynamic_qr =
     Inr (\<lparr>allowed = True, reason = None, upgradeRequired = None\<rparr>, db_enterprise) \<and>
   canPerformAction january1970 db_enterprise 3 4 5 ''u4'' logo_upload =
     Inr (\<lparr>allowed = True, reason = None, upgradeRequired = None\<rparr>, db_enterprise)"
proof -
  have h1: "subscription_findFirst db_enterprise ''u4'' = Some (hd (subscriptions db_enterprise))"
    by (simp add: subscription_findFirst_def db_enterprise_def isCurrentStatus_def)
  have h2: "planType (hd (subscriptions db_enterprise)) = ENTERPRISE"
    by (simp add: db_enterprise_def)
  have u: "monthlyUsage january1970 db_enterprise 5 ''u4'' ''QR_GENERATED'' = 10000000"
          "monthlyUsage january1970 db_enterprise 5 ''u4'' ''API_CALL'' = 10000000"
    by (simp_all add: monthlyUsage_def db_enterprise_def january1970_def)
  show ?thesis
    using canPerformAction_enterprise [OF h1 h2] h1 h2 u by simp
qed

text \<open>
  C8. When the current subscription of a user is a TRIAL in status TRIALING whose
  \<open>trialEnd\<close> is in the past, \<open>getSubscriptionInfo\<close> sets the status of that record to
  EXPIRED and appends a new record of the same user with plan FREE and status ACTIVE;
  it reports the trial as it was read, with no day left.
\<close>

theorem getSubscriptionInfo_expires_trial:
  assumes cur: "subscription_findFirst db uid = Some s"
      and trial: "planType s = TRIAL" "status s = TRIALING"
      and ended: "trialEnd s = Some te" "te < now"
      and ids: "wf_ids db"
  shows "\<exists>db' new.
           getSubscriptionInfo db now uid =
             Inr (Some \<lparr>info_planType = TRIAL, info_status = TRIALING, trialDaysLeft = 0,
                        isTrialActive = False,
                        info_currentPeriodEnd = currentPeriodEnd s\<rparr>, db') \<and>
           subscriptions db' =
             map (\<lambda>r. if sub_id r = sub_id s then r\<lparr>status := EXPIRED\<rparr> else r)
               (subscriptions db) @ [new] \<and>
           subscription_findUnique db' (sub_id s) = Some (s\<lparr>status := EXPIRED\<rparr>) \<and>
           sub_id new \<notin> sub_id ` set (subscriptions db) \<and>
           userId new = uid \<and> planType new = FREE \<and> status new = ACTIVE"
proof -
  from cur have mem: "s \<in> set (subscriptions db)" and uid: "userId s = uid"
    by (rule findFirst_props)+
  from ids have dist: "distinct (map sub_id (subscriptions db))"
    and fresh: "\<forall>r \<in> set (subscriptions db). sub_id r < nextId db"
    by (simp_all add: wf_ids_def list_all_iff)
  from ended have days: "daysLeft te now = 0" by (simp add: daysLeft_past)
  let ?new = "\<lparr>sub_id = nextId db, userId = userId s, planType = FREE, status = ACTIVE,
                trialStart = None, trialEnd = None,
                currentPeriodStart = None, currentPeriodEnd = None,
                stripeSubscriptionId = None, stripeCustomerId = None,
                createdAt = now\<rparr>"
  let ?old = "map (\<lambda>r. if sub_id r = sub_id s then r\<lparr>status := EXPIRED\<rparr> else r)
                (subscriptions db)"
  let ?db' = "db\<lparr>subscriptions := ?old @ [?new], nextId := Suc (nextId db)\<rparr>"
  have run: "getSubscriptionInfo db now uid =
             Inr (Some \<lparr>info_planType = TRIAL, info_status = TRIALING, trialDaysLeft = 0,
                        isTrialActive = False,
                        info_currentPeriodEnd = currentPeriodEnd s\<rparr>, ?db')"
    using cur trial ended(1) days
    by (simp add: getSubscriptionInfo_def expireTrial_result [OF mem dist])
  have uniq: "subscription_findUnique ?db' (sub_id s) = Some (s\<lparr>status := EXPIRED\<rparr>)"
  proof -
    have "find (\<lambda>r. sub_id r = sub_id s) (?old @ [?new]) = Some (s\<lparr>status := EXPIRED\<rparr>)"
      using find_map_expire [OF mem dist] by (rule find_append_Some)
    then show ?thesis by (simp add: subscription_findUnique_def)
  qed
  from fresh have new_id: "sub_id ?new \<notin> sub_id ` set (subscriptions db)" by auto
  show ?thesis
    using run uniq new_id uid by (intro exI [of _ ?db'] exI [of _ ?new]) simp
qed

theorem getSubscriptionInfo_expires_trial_witness:
  "subscription_findFirst db_trial ''u1'' = Some trial_row \<and>
   planType trial_row = TRIAL \<and> status trial_row = TRIALING \<and>
   trialEnd trial_row = Some 1209600000 \<and> (1209600000::int) < 1300000000 \<and>
   wf_ids db_trial \<and>
   (\<exists>db' new.
      getSubscriptionInfo db_trial 1300000000 ''u1'' =
        Inr (Some \<lparr>info_planType = TRIAL, info_status = TRIALING, trialDaysLeft = 0,
                   isTrialActive = False, info_currentPeriodEnd = None\<rparr>, db') \<and>
      subscriptions db' = [trial_row\<lparr>status := EXPIRED\<rparr>, new] \<and>
      subscription_findUnique db' 0 = Some (trial_row\<lparr>status := EXPIRED\<rparr>) \<and>
      sub_id new \<noteq> 0 \<and>
      userId new = ''u1'' \<and> planType new = FREE \<and> status new = ACTIVE)"
proof -
  have h1: "subscription_findFirst db_trial ''u1'' = Some trial_row"
    by (rule findFirst_db_trial)
  have h2: "planType trial_row = TRIAL" and h3: "status trial_row = TRIALING"
    and h4: "trialEnd trial_row = Some 1209600000"
    by (simp_all add: trial_row_def)
  have h5: "(1209600000::int) < 1300000000" by simp
  have h6: "wf_ids db_trial" by (simp add: wf_ids_def db_trial_def trial_row_def)
  have subs: "subscriptions db_trial = [trial_row]" by (simp add: db_trial_def)
  have fields: "sub_id trial_row = 0" "currentPeriodEnd trial_row = None"
    by (simp_all add: trial_row_def)
  from getSubscriptionInfo_expires_trial [OF h1 h2 h3 h4 h5 h6]
  show ?thesis
    by (simp add: h1 h2 h3 h4 h6 subs fields)
qed

section \<open>Properties of the content formatter\<close>

subsection \<open>Trimming\<close>

declare dropLeading.simps [simp del]

lemma take_guard:
  assumes "c \<notin> set w"
  shows "take (length w) (t @ c # u) = w \<longleftrightarrow> take (length w) t = w"
proof (cases "length w \<le> length t")
  case True
  then show ?thesis by simp
next
  case False
  then have "length (take (length w) t) \<noteq> length w" by simp
  then have "take (length w) t \<noteq> w" by metis
  moreover have "take (length w) (t @ c # u) \<noteq> w"
  proof
    assume eq: "take (length w) (t @ c # u) = w"
    from False obtain k where "length w - length t = Suc k"
      by (cases "length w - length t") simp_all
    then have "take (length w) (t @ c # u) = t @ c # take k u" by simp
    with eq have "c \<in> set w" by (metis in_set_conv_decomp)
    with assms show False by simp
  qed
  ultimately show ?thesis by simp
qed

lemma dropLeading_guard:
  assumes "\<forall>w \<in> set ws. c \<notin> set w"
  shows "dropLeading ws (t @ c # u) = dropLeading ws t @ c # u"
  using assms
proof (induction ws t rule: dropLeading.induct)
  case (1 ws s)
  have same: "find (\<lambda>w. w \<noteq> [] \<and> take (length w) (s @ c # u) = w) ws =
              find (\<lambda>w. w \<noteq> [] \<and> take (length w) s = w) ws"
  proof (rule find_cong [OF refl])
    fix w assume "w \<in> set ws"
    with "1.prems" have "c \<notin> set w" by blast
    from take_guard [OF this]
    show "(w \<noteq> [] \<and> take (length w) (s @ c # u) = w) = (w \<noteq> [] \<and> take (length w) s = w)"
      by (rule arg_cong [where f = "\<lambda>b. w \<noteq> [] \<and> b"])
  qed
  show ?case
  proof (cases "find (\<lambda>w. w \<noteq> [] \<and> take (length w) s = w) ws")
    case None
    with same show ?thesis by (simp add: dropLeading.simps [of ws s] dropLeading.simps [of ws "s @ c # u"])
  next
    case (Some w)
    then have "take (length w) s = w" by (auto simp: find_Some_iff)
    then have "length (take (length w) s) = length w" by simp
    then have len: "length w \<le> length s" by simp
    from "1.IH" [OF Some "1.prems"] have "dropLeading ws (drop (length w) s @ c # u) = dropLeading ws (drop (length w) s) @ c # u" .
    with same Some len show ?thesis
      by (simp add: dropLeading.simps [of ws s] dropLeading.simps [of ws "s @ c # u"])
  qed
qed
lemma dropLeading_Nil: "dropLeading ws [] = []"
proof -
  have "find (\<lambda>w. w \<noteq> [] \<and> take (length w) [] = w) ws = None"
    by (auto simp: find_None_iff)
  then show ?thesis by (simp add: dropLeading.simps [of ws "[]"])
qed

lemma F_not_white: "\<forall>w \<in> set whiteSpace. CHR ''F'' \<notin> set w"
  by (simp add: whiteSpace_def)

lemma colon_not_white: "\<forall>w \<in> set (map rev whiteSpace). CHR '':'' \<notin> set w"
  by (simp add: whiteSpace_def)

lemma trim_FN: "trim (''FN:'' @ x) = ''FN:'' @ trimEnd x"
proof -
  have "dropLeading whiteSpace ([] @ CHR ''F'' # (''N:'' @ x)) = dropLeading whiteSpace [] @ CHR ''F'' # (''N:'' @ x)"
    using F_not_white by (rule dropLeading_guard)
  then have lead: "dropLeading whiteSpace (CHR ''F'' # CHR ''N'' # CHR '':'' # x) =
                   CHR ''F'' # CHR ''N'' # CHR '':'' # x"
    by (simp add: dropLeading_Nil)
  have "dropLeading (map rev whiteSpace) (rev x @ CHR '':'' # ''NF'') = dropLeading (map rev whiteSpace) (rev x) @ CHR '':'' # ''NF''"
    using colon_not_white by (rule dropLeading_guard)
  then show ?thesis by (simp add: trim_def trimEnd_def lead)
qed

lemma valueLine_tagged:
  assumes "tag \<noteq> []"
  shows "filter keptLine [taggedLine tag f] = valueLine tag (orElse f [])"
  using assms
  by (auto simp: taggedLine_def valueLine_def keptLine_def endsWith_def truthy_def orElse_def split: option.splits)

lemma valueLine_FN: "filter keptLine [''FN:'' @ v] = valueLine ''FN:'' v"
  by (auto simp: valueLine_def keptLine_def endsWith_def)

lemma vcard_lines:
  "vcardLines vcard =
     [''BEGIN:VCARD'', ''VERSION:3.0''] @
     valueLine ''FN:'' (trimEnd (orElse (firstName vcard) [] @ '' '' @ orElse (lastName vcard) [])) @
     valueLine ''ORG:'' (orElse (organization vcard) []) @
     valueLine ''TEL:'' (orElse (phone vcard) []) @
     valueLine ''EMAIL:'' (orElse (email vcard) []) @
     valueLine ''URL:'' (orElse (url vcard) []) @
     [''END:VCARD'']"
proof -
  have split: "filter P [a, b, c, d, e, f, g, h] =
      filter P [a, b] @ filter P [c] @ filter P [d] @ filter P [e] @ filter P [f] @ filter P [g] @ filter P [h]"
    for P and a b c d e f g h :: string
    by simp
  have fixed: "filter keptLine [''BEGIN:VCARD'', ''VERSION:3.0''] = [''BEGIN:VCARD'', ''VERSION:3.0'']"
       "filter keptLine [''END:VCARD''] = [''END:VCARD'']"
    by (simp_all add: keptLine_def endsWith_def)
  have tagged:
    "filter keptLine [taggedLine ''ORG:'' f] = valueLine ''ORG:'' (orElse f [])"
    "filter keptLine [taggedLine ''TEL:'' f] = valueLine ''TEL:'' (orElse f [])"
    "filter keptLine [taggedLine ''EMAIL:'' f] = valueLine ''EMAIL:'' (orElse f [])"
    "filter keptLine [taggedLine ''URL:'' f] = valueLine ''URL:'' (orElse f [])" for f
    by (rule valueLine_tagged, simp)+
  show ?thesis
    unfolding vcardLines_def vcardCandidates_def split trim_FN fixed valueLine_FN tagged ..
qed

lemma afterColon_tag:
  "afterColon (''FN:'' @ v) = v" "afterColon (''ORG:'' @ v) = v" "afterColon (''TEL:'' @ v) = v"
  "afterColon (''EMAIL:'' @ v) = v" "afterColon (''URL:'' @ v) = v"
  by (simp_all add: afterColon_def)

lemma claimed_value_line:
  assumes "\<not> endsWith v (CHR '':'')" and "afterColon (tag @ v) = v"
  shows "filter (\<lambda>line. afterColon line \<noteq> []) [tag @ v] = valueLine tag v"
  using assms by (simp add: valueLine_def)

lemma claimed_tagged_line:
  assumes "\<not> endsWith (orElse f []) (CHR '':'')" and "\<And>v. afterColon (tag @ v) = v"
  shows "filter (\<lambda>line. afterColon line \<noteq> []) [taggedLine tag f] = valueLine tag (orElse f [])"
proof (cases "truthy f")
  case True
  then show ?thesis
    using claimed_value_line [OF assms(1) assms(2)] by (simp add: taggedLine_def)
next
  case False
  then have "orElse f [] = []" by (auto simp: truthy_def orElse_def split: option.splits)
  with False show ?thesis by (simp add: taggedLine_def valueLine_def afterColon_def)
qed

lemma vcard_lines_as_claimed:
  assumes "noTrailingColon vcard"
  shows "vcardLines vcard = vcardLines_as_claimed vcard"
proof -
  from assms have
    a1: "\<not> endsWith
           (trimEnd (orElse (firstName vcard) [] @ '' '' @ orElse (lastName vcard) []))
           (CHR '':'')"
    and a2: "\<not> endsWith (orElse (organization vcard) []) (CHR '':'')"
    and a3: "\<not> endsWith (orElse (phone vcard) []) (CHR '':'')"
    and a4: "\<not> endsWith (orElse (email vcard) []) (CHR '':'')"
    and a5: "\<not> endsWith (orElse (url vcard) []) (CHR '':'')"
    by (simp_all add: noTrailingColon_def)
  let ?P = "\<lambda>line. afterColon line \<noteq> []"
  have split: "filter P [a, b, c, d, e, f, g, h] =
      filter P [a, b] @ filter P [c] @ filter P [d] @ filter P [e] @ filter P [f] @
      filter P [g] @ filter P [h]"
    for P and a b c d e f g h :: string
    by simp
  have fixed: "filter ?P [''BEGIN:VCARD'', ''VERSION:3.0''] = [''BEGIN:VCARD'', ''VERSION:3.0'']"
    "filter ?P [''END:VCARD''] = [''END:VCARD'']"
    by (simp_all add: afterColon_def)
  have "vcardLines_as_claimed vcard =
     [''BEGIN:VCARD'', ''VERSION:3.0''] @
     valueLine ''FN:'' (trimEnd (orElse (firstName vcard) [] @ '' '' @ orElse (lastName vcard) [])) @
     valueLine ''ORG:'' (orElse (organization vcard) []) @
     valueLine ''TEL:'' (orElse (phone vcard) []) @
     valueLine ''EMAIL:'' (orElse (email vcard) []) @
     valueLine ''URL:'' (orElse (url vcard) []) @
     [''END:VCARD'']"
    unfolding vcardLines_as_claimed_def vcardCandidates_def split trim_FN fixed
      claimed_value_line [OF a1 afterColon_tag(1)]
      claimed_tagged_line [OF a2 afterColon_tag(2)]
      claimed_tagged_line [OF a3 afterColon_tag(3)]
      claimed_tagged_line [OF a4 afterColon_tag(4)]
      claimed_tagged_line [OF a5 afterColon_tag(5)] ..
  then show ?thesis by (simp only: vcard_lines)
qed

subsection \<open>The claims\<close>

lemma remove1_at_iff:
  "remove1 (CHR ''@'') h = stripLeadingAt h \<longleftrightarrow> firstAtLeads h"
proof (cases h)
  case Nil
  then show ?thesis by (simp add: stripLeadingAt_def firstAtLeads_def)
next
  case (Cons c r)
  show ?thesis
  proof (cases "c = CHR ''@''")
    case True
    with Cons show ?thesis by (simp add: stripLeadingAt_def firstAtLeads_def)
  next
    case False
    have "remove1 (CHR ''@'') r = r \<longleftrightarrow> CHR ''@'' \<notin> set r"
    proof
      assume eq: "remove1 (CHR ''@'') r = r"
      show "CHR ''@'' \<notin> set r"
      proof
        assume "CHR ''@'' \<in> set r"
        then have "length (remove1 (CHR ''@'') r) = length r - 1" and "0 < length r"
          by (auto simp: length_remove1)
        then have "length (remove1 (CHR ''@'') r) < length r" by arith
        with eq show False by simp
      qed
    next
      assume "CHR ''@'' \<notin> set r"
      then show "remove1 (CHR ''@'') r = r" by (rule remove1_idem)
    qed
    with Cons False show ?thesis
      by (auto simp: stripLeadingAt_def firstAtLeads_def)
  qed
qed

lemma remove1_at:
  assumes "firstAtLeads h"
  shows "remove1 (CHR ''@'') h = stripLeadingAt h"
  using assms by (simp only: remove1_at_iff)

text \<open>
  For a platform of the table (or none), the formatter gives the base URL and the handle
  without a leading \<open>@\<close> exactly for the handles whose first \<open>@\<close> leads.
\<close>

lemma generateQrContent_social_exact:
  assumes "qrType d = SOCIAL"
      and "socialUrls (orElse (socialPlatform d) ''twitter'') = Some base"
  shows "generateQrContent d = base @ stripLeadingAt (orElse (socialHandle d) []) \<longleftrightarrow>
         firstAtLeads (orElse (socialHandle d) [])"
  using assms by (simp add: generateQrContent_def propertyText_def remove1_at_iff)

text \<open>
  C4, as stated, fails on the code in two ways: a platform name the table does not
  have is not replaced by twitter (the text of \<open>undefined\<close> is prepended), and the
  \<open>@\<close> that is removed is the first one of the handle wherever it stands.
\<close>

theorem generateQrContent_social_counterexample:
  "generateQrContent (social (Some ''myspace'') ''bob'') = ''undefinedbob'' \<and>
   social_as_claimed (Some ''myspace'') (Some ''bob'') = ''https://twitter.com/bob'' \<and>
   generateQrContent (social (Some ''myspace'') ''bob'') \<noteq>
     social_as_claimed (Some ''myspace'') (Some ''bob'') \<and>
   generateQrContent (social (Some ''twitter'') ''a@b'') = ''https://twitter.com/ab'' \<and>
   social_as_claimed (Some ''twitter'') (Some ''a@b'') = ''https://twitter.com/a@b'' \<and>
   generateQrContent (social (Some ''twitter'') ''a@b'') \<noteq>
     social_as_claimed (Some ''twitter'') (Some ''a@b'')"
  by (simp add: generateQrContent_def social_def blankContent_def orElse_def propertyText_def
      socialUrls_def objectPrototype_def social_as_claimed_def stripLeadingAt_def)

text \<open>
  C4, amended. For a SOCIAL payload whose platform is one of the seven names of the
  table, or is absent or empty (then twitter is taken), and whose handle is empty,
  begins with \<open>@\<close> or has no \<open>@\<close>, the result is the base URL of the platform followed
  by the handle with a leading \<open>@\<close> stripped.
\<close>

theorem generateQrContent_social:
  assumes "qrType d = SOCIAL"
      and "socialUrls (orElse (socialPlatform d) ''twitter'') = Some base"
      and "firstAtLeads (orElse (socialHandle d) [])"
  shows "generateQrContent d = base @ stripLeadingAt (orElse (socialHandle d) [])"
  using assms by (simp add: generateQrContent_def propertyText_def remove1_at)

theorem generateQrContent_social_witness:
  "qrType (social None ''@bob'') = SOCIAL \<and>
   socialUrls (orElse (socialPlatform (social None ''@bob'')) ''twitter'') =
     Some ''https://twitter.com/'' \<and>
   firstAtLeads (orElse (socialHandle (social None ''@bob'')) []) \<and>
   generateQrContent (social None ''@bob'') = ''https://twitter.com/bob'' \<and>
   qrType (social (Some ''linkedin'') ''jane-doe'') = SOCIAL \<and>
   socialUrls (orElse (socialPlatform (social (Some ''linkedin'') ''jane-doe'')) ''twitter'') =
     Some ''https://linkedin.com/in/'' \<and>
   firstAtLeads (orElse (socialHandle (social (Some ''linkedin'') ''jane-doe'')) []) \<and>
   generateQrContent (social (Some ''linkedin'') ''jane-doe'') =
     ''https://linkedin.com/in/jane-doe'' \<and>
   qrType (social (Some ''github'') ''@a@b'') = SOCIAL \<and>
   socialUrls (orElse (socialPlatform (social (Some ''github'') ''@a@b'')) ''twitter'') =
     Some ''https://github.com/'' \<and>
   firstAtLeads (orElse (socialHandle (social (Some ''github'') ''@a@b'')) []) \<and>
   generateQrContent (social (Some ''github'') ''@a@b'') = ''https://github.com/a@b''"
proof -
  have a1: "qrType (social None ''@bob'') = SOCIAL"
    and a2: "socialUrls (orElse (socialPlatform (social None ''@bob'')) ''twitter'') =
               Some ''https://twitter.com/''"
    and a3: "firstAtLeads (orElse (socialHandle (social None ''@bob'')) [])"
    by (simp_all add: social_def blankContent_def orElse_def socialUrls_def firstAtLeads_def)
  have b1: "qrType (social (Some ''linkedin'') ''jane-doe'') = SOCIAL"
    and b2: "socialUrls (orElse (socialPlatform (social (Some ''linkedin'') ''jane-doe''))
               ''twitter'') = Some ''https://linkedin.com/in/''"
    and b3: "firstAtLeads (orElse (socialHandle (social (Some ''linkedin'') ''jane-doe'')) [])"
    by (simp_all add: social_def blankContent_def orElse_def socialUrls_def firstAtLeads_def)
  have c1: "qrType (social (Some ''github'') ''@a@b'') = SOCIAL"
    and c2: "socialUrls (orElse (socialPlatform (social (Some ''github'') ''@a@b''))
               ''twitter'') = Some ''https://github.com/''"
    and c3: "firstAtLeads (orElse (socialHandle (social (Some ''github'') ''@a@b'')) [])"
    by (simp_all add: social_def blankContent_def orElse_def socialUrls_def firstAtLeads_def)
  have h: "stripLeadingAt (orElse (socialHandle (social None ''@bob'')) []) = ''bob''"
          "stripLeadingAt (orElse (socialHandle (social (Some ''linkedin'') ''jane-doe'')) []) =
             ''jane-doe''"
          "stripLeadingAt (orElse (socialHandle (social (Some ''github'') ''@a@b'')) []) =
             ''a@b''"
    by (simp_all add: social_def blankContent_def orElse_def stripLeadingAt_def)
  show ?thesis
    using generateQrContent_social [OF a1 a2 a3] generateQrContent_social [OF b1 b2 b3]
      generateQrContent_social [OF c1 c2 c3] a1 a2 a3 b1 b2 b3 c1 c2 c3
    by (simp add: h)
qed

text \<open>
  C5, as stated, fails on the code: a line is also dropped when the value of its field
  ends with a colon. With the organization \<open>Acme:\<close> the candidate line \<open>ORG:Acme:\<close>
  has text after its colon, and the filter drops it.
\<close>

theorem generateQrContent_vcard_counterexample:
  "vcardCandidates vcard_jane_acme ! 3 = ''ORG:Acme:'' \<and>
   afterColon ''ORG:Acme:'' = ''Acme:'' \<and>
   ''ORG:Acme:'' \<in> set (vcardLines_as_claimed vcard_jane_acme) \<and>
   ''ORG:Acme:'' \<notin> set (vcardLines vcard_jane_acme) \<and>
   generateQrContent ((blankContent VCARD)\<lparr>vcardData := Some vcard_jane_acme\<rparr>) =
     ''BEGIN:VCARD\<newline>VERSION:3.0\<newline>FN:Jane\<newline>END:VCARD''"
proof -
  have t: "trimEnd ''Jane '' = ''Jane''"
    by (simp add: trimEnd_def whiteSpace_def dropLeading.simps)
  have l: "vcardLines vcard_jane_acme = [''BEGIN:VCARD'', ''VERSION:3.0'', ''FN:Jane'', ''END:VCARD'']"
    by (simp add: vcard_lines vcard_jane_acme_def emptyVCard_def orElse_def valueLine_def
        endsWith_def t)
  have c: "vcardCandidates vcard_jane_acme ! 3 = ''ORG:Acme:''"
    by (simp add: vcardCandidates_def vcard_jane_acme_def emptyVCard_def taggedLine_def
        truthy_def orElse_def numeral_3_eq_3)
  have m: "''ORG:Acme:'' \<in> set (vcardLines_as_claimed vcard_jane_acme)"
    by (simp add: vcardLines_as_claimed_def vcardCandidates_def vcard_jane_acme_def
        emptyVCard_def taggedLine_def truthy_def orElse_def afterColon_def)
  show ?thesis
    using c m by (simp add: l afterColon_def generateQrContent_def blankContent_def)
qed

text \<open>
  C5, amended. For a VCARD payload the result is the lines \<open>BEGIN:VCARD\<close>,
  \<open>VERSION:3.0\<close>, the lines of the name, organization, phone, email and URL, and
  \<open>END:VCARD\<close>, joined by line feeds, where the line of a field is left out when its
  value (for the name: first and last name around a blank, trimmed at the end) is empty
  or ends with a colon. When no value ends with a colon, a line is dropped exactly when
  nothing follows its colon, so that the line of every absent field is left out.
\<close>

theorem generateQrContent_vcard:
  assumes "qrType d = VCARD"
      and "vcard = (case vcardData d of None \<Rightarrow> emptyVCard | Some v \<Rightarrow> v)"
  shows "generateQrContent d =
           join [CHR 0x0A]
             ([''BEGIN:VCARD'', ''VERSION:3.0''] @
              valueLine ''FN:''
                (trimEnd (orElse (firstName vcard) [] @ '' '' @ orElse (lastName vcard) [])) @
              valueLine ''ORG:'' (orElse (organization vcard) []) @
              valueLine ''TEL:'' (orElse (phone vcard) []) @
              valueLine ''EMAIL:'' (orElse (email vcard) []) @
              valueLine ''URL:'' (orElse (url vcard) []) @
              [''END:VCARD'']) \<and>
         (noTrailingColon vcard \<longrightarrow>
            generateQrContent d = join [CHR 0x0A] (vcardLines_as_claimed vcard))"
proof -
  from assms have gen: "generateQrContent d = join [CHR 0x0A] (vcardLines vcard)"
    by (simp add: generateQrContent_def)
  then have "generateQrContent d =
           join [CHR 0x0A]
             ([''BEGIN:VCARD'', ''VERSION:3.0''] @
              valueLine ''FN:''
                (trimEnd (orElse (firstName vcard) [] @ '' '' @ orElse (lastName vcard) [])) @
              valueLine ''ORG:'' (orElse (organization vcard) []) @
              valueLine ''TEL:'' (orElse (phone vcard) []) @
              valueLine ''EMAIL:'' (orElse (email vcard) []) @
              valueLine ''URL:'' (orElse (url vcard) []) @
              [''END:VCARD''])"
    by (simp only: vcard_lines)
  moreover have "generateQrContent d = join [CHR 0x0A] (vcardLines_as_claimed vcard)"
    if "noTrailingColon vcard"
    using gen vcard_lines_as_claimed [OF that] by simp
  ultimately show ?thesis by blast
qed

theorem generateQrContent_vcard_witness:
  "qrType ((blankContent VCARD)\<lparr>vcardData := Some vcard_jane\<rparr>) = VCARD \<and>
   vcard_jane =
     (case vcardData ((blankContent VCARD)\<lparr>vcardData := Some vcard_jane\<rparr>) of
        None \<Rightarrow> emptyVCard | Some v \<Rightarrow> v) \<and>
   noTrailingColon vcard_jane \<and>
   valueLine ''FN:''
     (trimEnd (orElse (firstName vcard_jane) [] @ '' '' @ orElse (lastName vcard_jane) [])) =
     [''FN:Jane''] \<and>
   valueLine ''ORG:'' (orElse (organization vcard_jane) []) = [] \<and>
   vcardLines_as_claimed vcard_jane =
     [''BEGIN:VCARD'', ''VERSION:3.0'', ''FN:Jane'', ''END:VCARD''] \<and>
   generateQrContent ((blankContent VCARD)\<lparr>vcardData := Some vcard_jane\<rparr>) =
     join [CHR 0x0A] (vcardLines_as_claimed vcard_jane) \<and>
   generateQrContent ((blankContent VCARD)\<lparr>vcardData := Some vcard_jane\<rparr>) =
     ''BEGIN:VCARD\<newline>VERSION:3.0\<newline>FN:Jane\<newline>END:VCARD''"
proof -
  have h1: "qrType ((blankContent VCARD)\<lparr>vcardData := Some vcard_jane\<rparr>) = VCARD"
    by (simp add: blankContent_def)
  have h2: "vcard_jane =
     (case vcardData ((blankContent VCARD)\<lparr>vcardData := Some vcard_jane\<rparr>) of
        None \<Rightarrow> emptyVCard | Some v \<Rightarrow> v)"
    by simp
  have t: "trimEnd ''Jane '' = ''Jane''"
    by (simp add: trimEnd_def whiteSpace_def dropLeading.simps)
  have fn: "valueLine ''FN:''
     (trimEnd (orElse (firstName vcard_jane) [] @ '' '' @ orElse (lastName vcard_jane) [])) =
     [''FN:Jane'']"
    by (simp add: vcard_jane_def emptyVCard_def orElse_def t valueLine_def endsWith_def)
  have rest: "valueLine ''ORG:'' (orElse (organization vcard_jane) []) = []"
    "valueLine ''TEL:'' (orElse (phone vcard_jane) []) = []"
    "valueLine ''EMAIL:'' (orElse (email vcard_jane) []) = []"
    "valueLine ''URL:'' (orElse (url vcard_jane) []) = []"
    by (simp_all add: vcard_jane_def emptyVCard_def orElse_def valueLine_def)
  have h3: "noTrailingColon vcard_jane"
    by (simp add: noTrailingColon_def vcard_jane_def emptyVCard_def orElse_def t endsWith_def)
  have lines: "vcardLines_as_claimed vcard_jane =
     [''BEGIN:VCARD'', ''VERSION:3.0'', ''FN:Jane'', ''END:VCARD'']"
  proof -
    have "vcardLines vcard_jane = [''BEGIN:VCARD'', ''VERSION:3.0'', ''FN:Jane'', ''END:VCARD'']"
      unfolding vcard_lines fn rest by simp
    with vcard_lines_as_claimed [OF h3] show ?thesis by simp
  qed
  from generateQrContent_vcard [OF h1 h2]
  have "generateQrContent ((blankContent VCARD)\<lparr>vcardData := Some vcard_jane\<rparr>) =
          join [CHR 0x0A] (vcardLines_as_claimed vcard_jane)"
    using h3 by blast
  then show ?thesis
    using h1 h3 fn rest lines by simp
qed

section \<open>Properties of the renderer and the converter\<close>

subsection \<open>The loops over the module grid\<close>

lemma nested_loops:
  "concat (map (\<lambda>row. concat (map (\<lambda>col. f (row, col)) cs)) rs) =
   concat (map f (List.product rs cs))"
  by (induction rs) (simp_all add: comp_def)

lemma guarded_loop:
  "concat (map (\<lambda>x. if P x then [g x] else []) xs) = map g (filter P xs)"
  by (induction xs) simp_all

lemma zone_bounds:
  "(x \<ge> (s - s * 0.25) / 2 \<and> x \<le> (s - s * 0.25) / 2 + s * 0.25) \<longleftrightarrow>
   \<bar>x - s / 2\<bar> \<le> 0.25 * s / 2" for x s :: real
  unfolding abs_le_iff by (simp add: field_simps) linarith

lemma drawQrModules_eq:
  "drawQrModules modules cellSize hasLogo a b st fg =
     map (\<lambda>rc. DrawStyledModule (real (snd rc) * cellSize) (real (fst rc) * cellSize) cellSize st fg)
       (filter (\<lambda>rc. \<not> (hasLogo \<and> a \<le> real (snd rc) * cellSize \<and> real (snd rc) * cellSize \<le> b \<and>
                             a \<le> real (fst rc) * cellSize \<and> real (fst rc) * cellSize \<le> b))
          (darkModules modules))"
proof -
  let ?dark = "\<lambda>rc. getModule modules (snd rc) (fst rc)"
  let ?out = "\<lambda>rc. \<not> (hasLogo \<and> a \<le> real (snd rc) * cellSize \<and> real (snd rc) * cellSize \<le> b \<and>
                          a \<le> real (fst rc) * cellSize \<and> real (fst rc) * cellSize \<le> b)"
  let ?paint = "\<lambda>rc. DrawStyledModule (real (snd rc) * cellSize) (real (fst rc) * cellSize)
                   cellSize st fg"
  let ?body = "\<lambda>rc. if ?dark rc \<and> ?out rc then [?paint rc] else []"
  let ?grid = "List.product [0..<matrixSize modules] [0..<matrixSize modules]"
  have "drawQrModules modules cellSize hasLogo a b st fg =
        concat (map (\<lambda>row. concat (map (\<lambda>col. ?body (row, col)) [0..<matrixSize modules]))
          [0..<matrixSize modules])"
    unfolding drawQrModules_def Let_def fst_conv snd_conv
    by (intro arg_cong [where f = concat] map_cong refl) auto
  also have "\<dots> = concat (map ?body ?grid)"
    by (rule nested_loops)
  also have "\<dots> = map ?paint (filter (\<lambda>rc. ?dark rc \<and> ?out rc) ?grid)"
    by (rule guarded_loop)
  also have "filter (\<lambda>rc. ?dark rc \<and> ?out rc) ?grid = filter ?out (darkModules modules)"
    by (simp add: darkModules_def case_prod_unfold conj_commute)
  finally show ?thesis .
qed

lemma keep_out_test:
  "((s - s * 0.25) / 2 \<le> real (snd rc) * (s / real (matrixSize modules)) \<and>
    real (snd rc) * (s / real (matrixSize modules)) \<le> (s - s * 0.25) / 2 + s * 0.25 \<and>
    (s - s * 0.25) / 2 \<le> real (fst rc) * (s / real (matrixSize modules)) \<and>
    real (fst rc) * (s / real (matrixSize modules)) \<le> (s - s * 0.25) / 2 + s * 0.25) \<longleftrightarrow>
   inKeepOutZone (sizePx styleConfig) (cornerOf styleConfig modules rc)"
  if "s = sizePx styleConfig"
  using zone_bounds [of s "real (snd rc) * (s / real (matrixSize modules))"]
    zone_bounds [of s "real (fst rc) * (s / real (matrixSize modules))"]
  unfolding inKeepOutZone_def cornerOf_def fst_conv snd_conv that by blast

lemma styledQrCanvas_eq:
  assumes "qrCreate lib content' (errorLevel styleConfig) = Inr modules"
  shows "styledQrCanvas lib content' styleConfig None =
           Inr (background styleConfig @
                map (paintModule styleConfig modules) (darkModules modules), [])"
    and "styledQrCanvas lib content' styleConfig (Some logo) =
           Inr (background styleConfig @
                map (paintModule styleConfig modules)
                  (filter (\<lambda>rc. \<not> inKeepOutZone (sizePx styleConfig)
                                    (cornerOf styleConfig modules rc))
                     (darkModules modules)) @
                fst (addLogoToCanvas lib logo (sizePx styleConfig)
                       (case logoStyle styleConfig of None \<Rightarrow> ''square'' | Some s \<Rightarrow> s)),
                snd (addLogoToCanvas lib logo (sizePx styleConfig)
                       (case logoStyle styleConfig of None \<Rightarrow> ''square'' | Some s \<Rightarrow> s)))"
proof -
  have paint: "(\<lambda>rc. DrawStyledModule
                  (real (snd rc) * (sizePx styleConfig / real (matrixSize modules)))
                  (real (fst rc) * (sizePx styleConfig / real (matrixSize modules)))
                  (sizePx styleConfig / real (matrixSize modules))
                  (style styleConfig) (fgColor styleConfig)) =
               paintModule styleConfig modules"
    by (rule ext) (simp add: paintModule_def cornerOf_def)
  have given: "(Some logo \<noteq> None) = True" by simp
  show "styledQrCanvas lib content' styleConfig None =
           Inr (background styleConfig @
                map (paintModule styleConfig modules) (darkModules modules), [])"
    unfolding styledQrCanvas_def assms sum.case Let_def drawQrModules_eq paint
    by (simp add: background_def)
  show "styledQrCanvas lib content' styleConfig (Some logo) =
           Inr (background styleConfig @
                map (paintModule styleConfig modules)
                  (filter (\<lambda>rc. \<not> inKeepOutZone (sizePx styleConfig)
                                    (cornerOf styleConfig modules rc))
                     (darkModules modules)) @
                fst (addLogoToCanvas lib logo (sizePx styleConfig)
                       (case logoStyle styleConfig of None \<Rightarrow> ''square'' | Some s \<Rightarrow> s)),
                snd (addLogoToCanvas lib logo (sizePx styleConfig)
                       (case logoStyle styleConfig of None \<Rightarrow> ''square'' | Some s \<Rightarrow> s)))"
    unfolding styledQrCanvas_def assms sum.case Let_def drawQrModules_eq paint given
      simp_thms if_True keep_out_test [OF refl]
    by (simp add: background_def case_prod_unfold)
qed

lemma dark_toy:
  "darkModules toyMatrix = [(0, 0), (0, 2), (1, 1), (1, 3), (2, 0), (2, 2), (3, 1), (3, 3)]"
  by (simp add: darkModules_def toyMatrix_def upt_rec)

lemma zone_toy:
  "filter (\<lambda>rc. \<not> inKeepOutZone (sizePx toyStyle) (cornerOf toyStyle toyMatrix rc))
     [(0, 0), (0, 2), (1, 1), (1, 3), (2, 0), (2, 2), (3, 1), (3, 3)] =
   [(0, 0), (0, 2), (1, 1), (1, 3), (2, 0), (3, 1), (3, 3)]"
  by (simp add: inKeepOutZone_def cornerOf_def toyStyle_def toyMatrix_def)

lemma addWatermark_metadata_failure:
  assumes "metadata lib b = Inl e"
  shows "addWatermark lib b = (Inr b, [ConsoleError ''Error adding watermark:'' e])"
  using assms by (simp add: addWatermark_def)

lemma convertToFormat_metadata_failure:
  assumes "metadata lib b = Inl e"
  shows "convertToFormat lib b f True =
           (fst (convertToFormat lib b f False), [ConsoleError ''Error adding watermark:'' e])"
  by (cases f) (simp_all add: convertToFormat_def addWatermark_metadata_failure [OF assms])

lemma convertToFormat_composite_failure:
  assumes "metadata lib b = Inr (w, h)"
      and "compositeToBuffer lib b (watermarkSvg w h) = Inl e"
  shows "addWatermark lib b = (Inl e, [])" and "convertToFormat lib b f True = (Inl e, [])"
  using assms by (simp_all add: convertToFormat_def addWatermark_def)

subsection \<open>The claims\<close>

text \<open>
  C6. When a logo buffer is given, the dark modules that are not painted are exactly
  those whose top-left corner lies in the keep-out zone, the centred square of side
  \<open>0.25 \<times> canvasSize\<close>; when none is given, every dark module is painted.
\<close>

theorem styledQrCanvas_keep_out:
  assumes "qrCreate lib content' (errorLevel styleConfig) = Inr modules"
  shows "styledQrCanvas lib content' styleConfig (Some logo) =
           Inr (background styleConfig @
                map (paintModule styleConfig modules)
                  (filter (\<lambda>rc. \<not> inKeepOutZone (sizePx styleConfig)
                                    (cornerOf styleConfig modules rc))
                     (darkModules modules)) @
                fst (addLogoToCanvas lib logo (sizePx styleConfig)
                       (case logoStyle styleConfig of None \<Rightarrow> ''square'' | Some s \<Rightarrow> s)),
                snd (addLogoToCanvas lib logo (sizePx styleConfig)
                       (case logoStyle styleConfig of None \<Rightarrow> ''square'' | Some s \<Rightarrow> s))) \<and>
         styledQrCanvas lib content' styleConfig None =
           Inr (background styleConfig @
                map (paintModule styleConfig modules) (darkModules modules), [])"
  using styledQrCanvas_eq [OF assms] by simp

theorem styledQrCanvas_keep_out_witness:
  "qrCreate toyImaging ''hi'' (errorLevel toyStyle) = Inr toyMatrix \<and>
   styledQrCanvas toyImaging ''hi'' toyStyle (Some [1, 2, 3]) =
     Inr ([SetFillStyle ''#ffffff'', FillRect 0 0 8 8, SetFillStyle ''#000000'',
           DrawStyledModule 0 0 2 ''square'' ''#000000'',
           DrawStyledModule 4 0 2 ''square'' ''#000000'',
           DrawStyledModule 2 2 2 ''square'' ''#000000'',
           DrawStyledModule 6 2 2 ''square'' ''#000000'',
           DrawStyledModule 0 4 2 ''square'' ''#000000'',
           DrawStyledModule 2 6 2 ''square'' ''#000000'',
           DrawStyledModule 6 6 2 ''square'' ''#000000'',
           SetFillStyle ''#ffffff'',
           FillRect (76 / 25) (76 / 25) (48 / 25) (48 / 25),
           DrawImage [1, 2, 3] (16 / 5) (16 / 5) (8 / 5) (8 / 5)], []) \<and>
   styledQrCanvas toyImaging ''hi'' toyStyle None =
     Inr ([SetFillStyle ''#ffffff'', FillRect 0 0 8 8, SetFillStyle ''#000000'',
           DrawStyledModule 0 0 2 ''square'' ''#000000'',
           DrawStyledModule 4 0 2 ''square'' ''#000000'',
           DrawStyledModule 2 2 2 ''square'' ''#000000'',
           DrawStyledModule 6 2 2 ''square'' ''#000000'',
           DrawStyledModule 0 4 2 ''square'' ''#000000'',
           DrawStyledModule 4 4 2 ''square'' ''#000000'',
           DrawStyledModule 2 6 2 ''square'' ''#000000'',
           DrawStyledModule 6 6 2 ''square'' ''#000000''], [])"
proof -
  have h: "qrCreate toyImaging ''hi'' (errorLevel toyStyle) = Inr toyMatrix"
    by (simp add: toyImaging_def)
  have logo: "addLogoToCanvas toyImaging [1, 2, 3] (sizePx toyStyle)
                (case logoStyle toyStyle of None \<Rightarrow> ''square'' | Some s \<Rightarrow> s) =
              ([SetFillStyle ''#ffffff'',
                FillRect (76 / 25) (76 / 25) (48 / 25) (48 / 25),
                DrawImage [1, 2, 3] (16 / 5) (16 / 5) (8 / 5) (8 / 5)], [])"
    by (simp add: addLogoToCanvas_def toyImaging_def toyStyle_def Let_def)
  have paint: "map (paintModule toyStyle toyMatrix) [(0, 0), (0, 2), (1, 1), (1, 3), (2, 0), (2, 2), (3, 1), (3, 3)] =
       [DrawStyledModule 0 0 2 ''square'' ''#000000'',
           DrawStyledModule 4 0 2 ''square'' ''#000000'',
           DrawStyledModule 2 2 2 ''square'' ''#000000'',
           DrawStyledModule 6 2 2 ''square'' ''#000000'',
           DrawStyledModule 0 4 2 ''square'' ''#000000'',
           DrawStyledModule 4 4 2 ''square'' ''#000000'',
           DrawStyledModule 2 6 2 ''square'' ''#000000'',
           DrawStyledModule 6 6 2 ''square'' ''#000000'']"
     "map (paintModule toyStyle toyMatrix) [(0, 0), (0, 2), (1, 1), (1, 3), (2, 0), (3, 1), (3, 3)] =
       [DrawStyledModule 0 0 2 ''square'' ''#000000'',
           DrawStyledModule 4 0 2 ''square'' ''#000000'',
           DrawStyledModule 2 2 2 ''square'' ''#000000'',
           DrawStyledModule 6 2 2 ''square'' ''#000000'',
           DrawStyledModule 0 4 2 ''square'' ''#000000'',
           DrawStyledModule 2 6 2 ''square'' ''#000000'',
           DrawStyledModule 6 6 2 ''square'' ''#000000'']"
    by (simp_all add: paintModule_def cornerOf_def toyStyle_def toyMatrix_def)
  have bg: "background toyStyle = [SetFillStyle ''#ffffff'', FillRect 0 0 8 8, SetFillStyle ''#000000'']"
    by (simp add: background_def toyStyle_def)
  have "styledQrCanvas toyImaging ''hi'' toyStyle (Some [1, 2, 3]) =
          Inr ([SetFillStyle ''#ffffff'', FillRect 0 0 8 8, SetFillStyle ''#000000''] @
               [DrawStyledModule 0 0 2 ''square'' ''#000000'',
                DrawStyledModule 4 0 2 ''square'' ''#000000'',
                DrawStyledModule 2 2 2 ''square'' ''#000000'',
                DrawStyledModule 6 2 2 ''square'' ''#000000'',
                DrawStyledModule 0 4 2 ''square'' ''#000000'',
                DrawStyledModule 2 6 2 ''square'' ''#000000'',
                DrawStyledModule 6 6 2 ''square'' ''#000000''] @
               [SetFillStyle ''#ffffff'',
                FillRect (76 / 25) (76 / 25) (48 / 25) (48 / 25),
                DrawImage [1, 2, 3] (16 / 5) (16 / 5) (8 / 5) (8 / 5)], []) \<and>
        styledQrCanvas toyImaging ''hi'' toyStyle None =
          Inr ([SetFillStyle ''#ffffff'', FillRect 0 0 8 8, SetFillStyle ''#000000''] @
               [DrawStyledModule 0 0 2 ''square'' ''#000000'',
                DrawStyledModule 4 0 2 ''square'' ''#000000'',
                DrawStyledModule 2 2 2 ''square'' ''#000000'',
                DrawStyledModule 6 2 2 ''square'' ''#000000'',
                DrawStyledModule 0 4 2 ''square'' ''#000000'',
                DrawStyledModule 4 4 2 ''square'' ''#000000'',
                DrawStyledModule 2 6 2 ''square'' ''#000000'',
                DrawStyledModule 6 6 2 ''square'' ''#000000''], [])"
    using styledQrCanvas_keep_out [OF h, of "[1, 2, 3]"]
    unfolding dark_toy zone_toy logo paint bg fst_conv snd_conv .
  with h show ?thesis by (simp only: append.simps simp_thms)
qed

text \<open>
  C9. When the given logo cannot be decoded, the keep-out zone is still left unpainted
  and neither a background patch nor a logo is drawn (the failure is logged): the
  canvas is that of the render without a logo, less the modules of the zone.
\<close>

theorem styledQrCanvas_logo_decode_failure:
  assumes "qrCreate lib content' (errorLevel styleConfig) = Inr modules"
      and "loadImage lib logo = Inl e"
  shows "styledQrCanvas lib content' styleConfig (Some logo) =
           Inr (background styleConfig @
                map (paintModule styleConfig modules)
                  (filter (\<lambda>rc. \<not> inKeepOutZone (sizePx styleConfig)
                                    (cornerOf styleConfig modules rc))
                     (darkModules modules)),
                [ConsoleError ''Error adding logo to QR code:'' e]) \<and>
         styledQrCanvas lib content' styleConfig None =
           Inr (background styleConfig @
                map (paintModule styleConfig modules) (darkModules modules), [])"
proof -
  from assms(2) have "addLogoToCanvas lib logo canvasSize logoStyle' =
      ([], [ConsoleError ''Error adding logo to QR code:'' e])" for canvasSize logoStyle'
    by (simp add: addLogoToCanvas_def)
  with styledQrCanvas_eq [OF assms(1)] show ?thesis by simp
qed

theorem styledQrCanvas_logo_decode_failure_witness:
  "qrCreate toyImaging ''hi'' (errorLevel toyStyle) = Inr toyMatrix \<and>
   loadImage toyImaging [] = Inl (LibraryError ''Unsupported image type'') \<and>
   styledQrCanvas toyImaging ''hi'' toyStyle (Some []) =
     Inr ([SetFillStyle ''#ffffff'', FillRect 0 0 8 8, SetFillStyle ''#000000'',
           DrawStyledModule 0 0 2 ''square'' ''#000000'',
           DrawStyledModule 4 0 2 ''square'' ''#000000'',
           DrawStyledModule 2 2 2 ''square'' ''#000000'',
           DrawStyledModule 6 2 2 ''square'' ''#000000'',
           DrawStyledModule 0 4 2 ''square'' ''#000000'',
           DrawStyledModule 2 6 2 ''square'' ''#000000'',
           DrawStyledModule 6 6 2 ''square'' ''#000000''],
          [ConsoleError ''Error adding logo to QR code:''
             (LibraryError ''Unsupported image type'')])"
proof -
  have h1: "qrCreate toyImaging ''hi'' (errorLevel toyStyle) = Inr toyMatrix"
    by (simp add: toyImaging_def)
  have h2: "loadImage toyImaging [] = Inl (LibraryError ''Unsupported image type'')"
    by (simp add: toyImaging_def)
  have paint:
     "map (paintModule toyStyle toyMatrix) [(0, 0), (0, 2), (1, 1), (1, 3), (2, 0), (3, 1), (3, 3)] =
       [DrawStyledModule 0 0 2 ''square'' ''#000000'',
           DrawStyledModule 4 0 2 ''square'' ''#000000'',
           DrawStyledModule 2 2 2 ''square'' ''#000000'',
           DrawStyledModule 6 2 2 ''square'' ''#000000'',
           DrawStyledModule 0 4 2 ''square'' ''#000000'',
           DrawStyledModule 2 6 2 ''square'' ''#000000'',
           DrawStyledModule 6 6 2 ''square'' ''#000000'']"
    by (simp_all add: paintModule_def cornerOf_def toyStyle_def toyMatrix_def)
  have bg: "background toyStyle = [SetFillStyle ''#ffffff'', FillRect 0 0 8 8, SetFillStyle ''#000000'']"
    by (simp add: background_def toyStyle_def)
  have "styledQrCanvas toyImaging ''hi'' toyStyle (Some []) =
          Inr ([SetFillStyle ''#ffffff'', FillRect 0 0 8 8, SetFillStyle ''#000000''] @
               [DrawStyledModule 0 0 2 ''square'' ''#000000'',
                DrawStyledModule 4 0 2 ''square'' ''#000000'',
                DrawStyledModule 2 2 2 ''square'' ''#000000'',
                DrawStyledModule 6 2 2 ''square'' ''#000000'',
                DrawStyledModule 0 4 2 ''square'' ''#000000'',
                DrawStyledModule 2 6 2 ''square'' ''#000000'',
                DrawStyledModule 6 6 2 ''square'' ''#000000''],
               [ConsoleError ''Error adding logo to QR code:''
                  (LibraryError ''Unsupported image type'')])"
    using styledQrCanvas_logo_decode_failure [OF h1 h2, THEN conjunct1]
    unfolding dark_toy zone_toy paint bg .
  with h1 h2 show ?thesis by (simp only: append.simps simp_thms)
qed

text \<open>
  C7. For \<open>svg\<close> and \<open>pdf\<close> the converter returns the input bytes when no
  watermark is asked for. When one is asked for and the image is watermarked (its
  metadata reads and compositing the overlay \<open>watermarkSvg\<close> onto it gives the bytes
  \<open>marked\<close>), it returns exactly \<open>marked\<close>, with no further conversion. For \<open>jpg\<close>
  and \<open>png\<close> it runs the encoder at quality 90, on the input or on \<open>marked\<close>. In
  every case the result for \<open>svg\<close> and \<open>pdf\<close> with a watermark is that of
  \<open>addWatermark\<close>.
\<close>

theorem convertToFormat_formats:
  "convertToFormat lib b svg False = (Inr b, []) \<and>
   convertToFormat lib b pdf False = (Inr b, []) \<and>
   convertToFormat lib b svg True = addWatermark lib b \<and>
   convertToFormat lib b pdf True = addWatermark lib b \<and>
   convertToFormat lib b jpg False = (jpegToBuffer lib 90 b, []) \<and>
   convertToFormat lib b png False = (pngToBuffer lib 90 b, []) \<and>
   convertToFormat lib b jpg True =
     (case addWatermark lib b of
        (Inl e, logged) \<Rightarrow> (Inl e, logged)
      | (Inr marked, logged) \<Rightarrow> (jpegToBuffer lib 90 marked, logged)) \<and>
   convertToFormat lib b png True =
     (case addWatermark lib b of
        (Inl e, logged) \<Rightarrow> (Inl e, logged)
      | (Inr marked, logged) \<Rightarrow> (pngToBuffer lib 90 marked, logged)) \<and>
   (\<forall>w h marked.
      metadata lib b = Inr (w, h) \<longrightarrow>
      compositeToBuffer lib b (watermarkSvg w h) = Inr marked \<longrightarrow>
        convertToFormat lib b svg True = (Inr marked, []) \<and>
        convertToFormat lib b pdf True = (Inr marked, []) \<and>
        convertToFormat lib b jpg True = (jpegToBuffer lib 90 marked, []) \<and>
        convertToFormat lib b png True = (pngToBuffer lib 90 marked, []))"
proof -
  have plain:
    "convertToFormat lib b svg False = (Inr b, [])"
    "convertToFormat lib b pdf False = (Inr b, [])"
    "convertToFormat lib b jpg False = (jpegToBuffer lib 90 b, [])"
    "convertToFormat lib b png False = (pngToBuffer lib 90 b, [])"
    by (simp_all add: convertToFormat_def)
  have through:
    "convertToFormat lib b svg True = addWatermark lib b"
    "convertToFormat lib b pdf True = addWatermark lib b"
    "convertToFormat lib b jpg True =
       (case addWatermark lib b of
          (Inl e, logged) \<Rightarrow> (Inl e, logged)
        | (Inr marked, logged) \<Rightarrow> (jpegToBuffer lib 90 marked, logged))"
    "convertToFormat lib b png True =
       (case addWatermark lib b of
          (Inl e, logged) \<Rightarrow> (Inl e, logged)
        | (Inr marked, logged) \<Rightarrow> (pngToBuffer lib 90 marked, logged))"
    by (cases "addWatermark lib b"; cases "fst (addWatermark lib b)";
        simp add: convertToFormat_def)+
  have marked:
    "convertToFormat lib b svg True = (Inr marked, []) \<and>
     convertToFormat lib b pdf True = (Inr marked, []) \<and>
     convertToFormat lib b jpg True = (jpegToBuffer lib 90 marked, []) \<and>
     convertToFormat lib b png True = (pngToBuffer lib 90 marked, [])"
    if "metadata lib b = Inr (w, h)"
      and "compositeToBuffer lib b (watermarkSvg w h) = Inr marked"
    for w h marked
    using that by (simp add: convertToFormat_def addWatermark_def)
  from plain through marked show ?thesis by blast
qed

theorem convertToFormat_formats_witness:
  "metadata stampingSharp [1, 2, 3] = Inr (Some 300, Some 300) \<and>
   compositeToBuffer stampingSharp [1, 2, 3] (watermarkSvg (Some 300) (Some 300)) =
     Inr ([1, 2, 3] @ map of_char (watermarkSvg (Some 300) (Some 300))) \<and>
   convertToFormat stampingSharp [1, 2, 3] svg False = (Inr [1, 2, 3], []) \<and>
   convertToFormat stampingSharp [1, 2, 3] svg True =
     (Inr ([1, 2, 3] @ map of_char (watermarkSvg (Some 300) (Some 300))), []) \<and>
   convertToFormat stampingSharp [1, 2, 3] pdf True =
     (Inr ([1, 2, 3] @ map of_char (watermarkSvg (Some 300) (Some 300))), []) \<and>
   convertToFormat stampingSharp [1, 2, 3] jpg True =
     (Inr (90 # [1, 2, 3] @ map of_char (watermarkSvg (Some 300) (Some 300))), []) \<and>
   convertToFormat stampingSharp [1, 2, 3] svg True \<noteq>
     convertToFormat stampingSharp [1, 2, 3] svg False"
proof -
  have m: "metadata stampingSharp [1, 2, 3] = Inr (Some 300, Some 300)"
    and c: "compositeToBuffer stampingSharp [1, 2, 3] (watermarkSvg (Some 300) (Some 300)) =
              Inr ([1, 2, 3] @ map of_char (watermarkSvg (Some 300) (Some 300)))"
    by (simp_all add: stampingSharp_def)
  have j: "jpegToBuffer stampingSharp 90 x = Inr (90 # x)" for x
    by (simp add: stampingSharp_def)
  have nonempty: "watermarkSvg (Some 300) (Some 300) \<noteq> []"
    by (simp add: watermarkSvg_def)
  from convertToFormat_formats [of stampingSharp "[1, 2, 3]"] m c
  have all: "convertToFormat stampingSharp [1, 2, 3] svg False = (Inr [1, 2, 3], [])"
    "convertToFormat stampingSharp [1, 2, 3] svg True =
       (Inr ([1, 2, 3] @ map of_char (watermarkSvg (Some 300) (Some 300))), [])"
    "convertToFormat stampingSharp [1, 2, 3] pdf True =
       (Inr ([1, 2, 3] @ map of_char (watermarkSvg (Some 300) (Some 300))), [])"
    "convertToFormat stampingSharp [1, 2, 3] jpg True =
       (jpegToBuffer stampingSharp 90
          ([1, 2, 3] @ map of_char (watermarkSvg (Some 300) (Some 300))), [])"
    by blast+
  have differ: "convertToFormat stampingSharp [1, 2, 3] svg True \<noteq>
     convertToFormat stampingSharp [1, 2, 3] svg False"
    unfolding all using nonempty by simp
  show ?thesis
    using m c all differ unfolding j by (simp only: simp_thms append.simps)
qed

text \<open>
  C10, evaluated on the code. The claim: a failure of the watermark compositing is
  caught by \<open>addWatermark\<close>, which returns the input buffer, and the conversion goes on.
  On the code, for an image whose metadata reads and whose compositing fails, the
  rejection is not caught and \<open>convertToFormat\<close> rejects, also for \<open>svg\<close>, which
  without the watermark returns the input.
\<close>

theorem convertToFormat_composite_failure_raises:
  "metadata truncatedPng [0x89, 0x50, 0x4E, 0x47] = Inr (Some 300, Some 300) \<and>
   compositeToBuffer truncatedPng [0x89, 0x50, 0x4E, 0x47] (watermarkSvg (Some 300) (Some 300)) =
     Inl (LibraryError ''pngload_buffer: libspng read error'') \<and>
   addWatermark truncatedPng [0x89, 0x50, 0x4E, 0x47] =
     (Inl (LibraryError ''pngload_buffer: libspng read error''), []) \<and>
   convertToFormat truncatedPng [0x89, 0x50, 0x4E, 0x47] svg True =
     (Inl (LibraryError ''pngload_buffer: libspng read error''), []) \<and>
   convertToFormat truncatedPng [0x89, 0x50, 0x4E, 0x47] svg False =
     (Inr [0x89, 0x50, 0x4E, 0x47], [])"
proof -
  have m: "metadata truncatedPng [0x89, 0x50, 0x4E, 0x47] = Inr (Some 300, Some 300)"
    and c: "compositeToBuffer truncatedPng [0x89, 0x50, 0x4E, 0x47]
              (watermarkSvg (Some 300) (Some 300)) =
            Inl (LibraryError ''pngload_buffer: libspng read error'')"
    by (simp_all add: truncatedPng_def)
  show ?thesis
    using convertToFormat_composite_failure [OF m c] m c
    by (simp add: convertToFormat_def)
qed


end
